theory Spec2Isabelle
  imports Main "HOL-Library.Sublist"
begin

section \<open>The GROMACS easyblock (easybuild/easyblocks/g/gromacs.py)\<close>

text \<open>
  The class \<open>EB_GROMACS\<close> overrides the steps of the generic CMake/configure-make
  easyblock. Its methods mutate the easyconfig dictionary \<open>self.cfg\<close> and a few
  attributes of \<open>self\<close>; here every method takes the object's state and returns either
  the exception it raises or the state it leaves behind.
\<close>

subsection \<open>Values\<close>

text \<open>
  An option of the easyconfig (\<open>configopts\<close>, \<open>buildopts\<close>, \<open>installopts\<close>) is a
  string, or a list of strings with one entry per iteration of the build.
\<close>

datatype optval = Str string | Lst "string list"

text \<open>\<open>runtest\<close> is \<open>None\<close>, a boolean or the name of a make target.\<close>

datatype rtval = RNone | RBool bool | RStr string

text \<open>The arguments handed to the logger next to a message.\<close>

datatype pyval = PInt int | PStr string | PList "string list"

datatype logrec =
    Debug string "pyval list"
  | Info string "pyval list"
  | Warning string "pyval list"

text \<open>
  The exceptions of the module. \<open>ParentFailure\<close> stands for whatever the framework,
  a step of the parent classes or an external command raises; the others are raised by
  the code of this class: the \<open>EasyBuildError\<close>s of \<open>configure_step\<close> and
  \<open>install_step\<close>, and Python's own errors for a concatenation of a string with a
  list, a missing environment variable and an attribute that was never set.
\<close>

datatype error =
    DoublePrecisionGPU
  | PlumedNoSupport "string option" string string
  | OpenMPNotSupported string
  | MpiexecNotFound string
  | LibsciNotFound string
  | PatternNotFound string
  | LibSubdirNotFound string
  | TypeError
  | KeyError string
  | AttributeError string
  | ParentFailure string

datatype precision = Single | Double

datatype mpitype = NoMPI | MPI

fun prec_name :: "precision \<Rightarrow> string" where
  "prec_name Single = ''single''"
| "prec_name Double = ''double''"

fun mpi_name :: "mpitype \<Rightarrow> string" where
  "mpi_name NoMPI = ''nompi''"
| "mpi_name MPI = ''mpi''"

subsection \<open>State\<close>

text \<open>
  The part of the object that the parent classes know: the entries of \<open>self.cfg\<close>
  the module reads or writes, the toolchain options, the version (the numeric
  components that \<open>LooseVersion\<close> compares), the iteration counter, the process
  environment and the log.
\<close>

record easyblock =
  configopts :: optval
  buildopts :: optval
  installopts :: optval
  install_cmd :: string
  build_cmd :: string
  configure_cmd :: string
  double_precision :: "bool option"
  runtest :: rtval
  parallel :: int
  mpisuffix :: string
  mpiexec :: string
  mpiexec_numproc_flag :: string
  mpi_numprocs :: int
  build_shared_libs :: bool
  usempi :: bool
  openmp :: bool
  version :: "nat list"
  src_names :: "string list"
  installdir :: string
  iter_idx :: int
  environ :: "string \<rightharpoonup> string"
  log :: "logrec list"

text \<open>
  The attributes that \<open>EB_GROMACS\<close> adds. Those assigned in \<open>run_all_steps\<close> do not
  exist before it has run, hence the options.
\<close>

record gromacs =
  eb :: easyblock
  lib_subdir :: string
  libext :: string
  double_prec_pattern :: "string option"
  save_installopts :: "optval option"
  save_install_cmd :: "string option"
  save_build_cmd :: "string option"
  variants_to_build :: "int option"

definition log_add :: "logrec \<Rightarrow> gromacs \<Rightarrow> gromacs" where
  "log_add m s = s\<lparr>eb := (eb s)\<lparr>log := log (eb s) @ [m]\<rparr>\<rparr>"

subsection \<open>Library functions\<close>

text \<open>\<open>LooseVersion(a) < LooseVersion(b)\<close> on numeric components: Python's list order.\<close>

fun ver_lt :: "nat list \<Rightarrow> nat list \<Rightarrow> bool" where
  "ver_lt [] [] = False"
| "ver_lt [] (y # ys) = True"
| "ver_lt (x # xs) [] = False"
| "ver_lt (x # xs) (y # ys) = (x < y \<or> (x = y \<and> ver_lt xs ys))"

text \<open>\<open>sep.join(xs)\<close>.\<close>

fun join :: "string \<Rightarrow> string list \<Rightarrow> string" where
  "join sep [] = []"
| "join sep [x] = x"
| "join sep (x # y # ys) = x @ sep @ join sep (y # ys)"

text \<open>\<open>a + b\<close> for a string \<open>a\<close>: a \<open>TypeError\<close> unless \<open>b\<close> is a string too.\<close>

definition str_plus :: "string \<Rightarrow> optval \<Rightarrow> error + string" where
  "str_plus a b = (case b of Str t \<Rightarrow> Inr (a @ t) | Lst ts \<Rightarrow> Inl TypeError)"

text \<open>\<open>p in v\<close>: a substring test on a string, membership on a list.\<close>

fun py_in :: "string \<Rightarrow> optval \<Rightarrow> bool" where
  "py_in p (Str t) = sublist p t"
| "py_in p (Lst ts) = (p \<in> set ts)"

text \<open>
  \<open>self.cfg.update(key, value)\<close> of the host framework appends: each item of the value
  (a string counts as one item) is added to a list parameter as a new element, and to
  a string parameter after a space and followed by one.
\<close>

fun cfg_update :: "optval \<Rightarrow> optval \<Rightarrow> optval" where
  "cfg_update (Lst xs) (Lst ys) = Lst (xs @ ys)"
| "cfg_update (Lst xs) (Str y) = Lst (xs @ [y])"
| "cfg_update (Str x) (Str y) = Str (x @ '' '' @ y @ '' '')"
| "cfg_update (Str x) (Lst ys) = Str (foldl (\<lambda>a y. a @ '' '' @ y @ '' '') x ys)"

text \<open>Sequencing: an exception ends the computation.\<close>

definition bind_err :: "error + 'a \<Rightarrow> ('a \<Rightarrow> error + 'b) \<Rightarrow> error + 'b" where
  "bind_err r f = (case r of Inl e \<Rightarrow> Inl e | Inr x \<Rightarrow> f x)"

text \<open>A \<open>for\<close> loop whose body may raise.\<close>

fun for_each :: "('a \<Rightarrow> 's \<Rightarrow> error + 's) \<Rightarrow> 'a list \<Rightarrow> 's \<Rightarrow> error + 's" where
  "for_each body [] s = Inr s"
| "for_each body (x # xs) s = bind_err (body x s) (for_each body xs)"

subsection \<open>run_all_steps\<close>

text \<open>The option tables, chosen by the version.\<close>

fun prec_opts :: "nat list \<Rightarrow> precision \<Rightarrow> string" where
  "prec_opts v Single = (if ver_lt v [4, 6] then ''--disable-double'' else ''-DGMX_DOUBLE=OFF'')"
| "prec_opts v Double = (if ver_lt v [4, 6] then ''--enable-double'' else ''-DGMX_DOUBLE=ON'')"

fun mpi_type_opts :: "nat list \<Rightarrow> mpitype \<Rightarrow> string" where
  "mpi_type_opts v NoMPI =
     (if ver_lt v [4, 6] then ''--disable-mpi'' else ''-DGMX_MPI=OFF -DGMX_THREAD_MPI=ON'')"
| "mpi_type_opts v MPI =
     (if ver_lt v [4, 6] then ''--enable-mpi'' else ''-DGMX_MPI=ON -DGMX_THREAD_MPI=OFF'')"

fun build_opts :: "nat list \<Rightarrow> mpitype \<Rightarrow> string" where
  "build_opts v NoMPI = ''''"
| "build_opts v MPI = (if ver_lt v [5] then ''mdrun'' else '''')"

fun install_opts :: "nat list \<Rightarrow> mpitype \<Rightarrow> string" where
  "install_opts v NoMPI = ''install''"
| "install_opts v MPI = (if ver_lt v [5] then ''install-mdrun'' else ''install'')"

text \<open>The axes: \<open>precisions\<close> and \<open>mpitypes\<close>.\<close>

definition precisions :: "easyblock \<Rightarrow> precision list" where
  "precisions b =
     [Single] @ (if double_precision b = None \<or> double_precision b = Some True
                 then [Double] else [])"

definition mpitypes :: "easyblock \<Rightarrow> mpitype list" where
  "mpitypes b = [NoMPI] @ (if usempi b then [MPI] else [])"

text \<open>
  The fragments of one variant, as the loop body collects them from the version and
  the \<open>mpisuffix\<close> parameter.
\<close>

definition var_confopts :: "nat list \<Rightarrow> string \<Rightarrow> precision \<Rightarrow> mpitype \<Rightarrow> string list" where
  "var_confopts v suf p m =
     [mpi_type_opts v m, prec_opts v p] @
     (if ver_lt v [4, 6]
      then [(if m = MPI
             then (''--program-suffix='' @ suf) @ (if p = Double then ''_d'' else '''')
             else '''')]
      else [])"

definition var_buildopts :: "nat list \<Rightarrow> mpitype \<Rightarrow> string list" where
  "var_buildopts v m = [build_opts v m]"

definition var_installopts :: "nat list \<Rightarrow> mpitype \<Rightarrow> string list" where
  "var_installopts v m = [install_opts v m]"

text \<open>
  The body of the inner loop. The loop state is the list \<open>versions_built\<close> and the
  object; \<open>cc\<close>, \<open>cb\<close> and \<open>ci\<close> are the common options saved before the loop.
\<close>

definition variant_body ::
  "optval \<Rightarrow> optval \<Rightarrow> optval \<Rightarrow> precision \<Rightarrow> mpitype \<Rightarrow>
   string list \<times> gromacs \<Rightarrow> error + string list \<times> gromacs" where
  "variant_body cc cb ci p m st =
     (let vb = fst st; s = snd st;
          vb1 = vb @ [prec_name p @ '' precision '' @ mpi_name m]
      in bind_err (str_plus (join '' '' (var_confopts (version (eb s)) (mpisuffix (eb s)) p m) @ '' '') cc) (\<lambda>c.
         let s1 = s\<lparr>eb := (eb s)\<lparr>configopts := cfg_update (configopts (eb s)) (Lst [c])\<rparr>\<rparr>
         in bind_err (str_plus (join '' '' (var_buildopts (version (eb s1)) m) @ '' '') cb) (\<lambda>b.
            let s2 = s1\<lparr>eb := (eb s1)\<lparr>buildopts := cfg_update (buildopts (eb s1)) (Lst [b])\<rparr>\<rparr>
            in bind_err (str_plus (join '' '' (var_installopts (version (eb s2)) m) @ '' '') ci) (\<lambda>i.
               Inr (vb1, s2\<lparr>eb := (eb s2)\<lparr>installopts :=
                                  cfg_update (installopts (eb s2)) (Lst [i])\<rparr>\<rparr>)))))"

text \<open>\<open>len(self.cfg['configopts'])\<close>, and the value as a logger argument.\<close>

fun pyval_of :: "optval \<Rightarrow> pyval" where
  "pyval_of (Str t) = PStr t"
| "pyval_of (Lst ts) = PList ts"

fun py_len :: "optval \<Rightarrow> int" where
  "py_len (Str t) = int (length t)"
| "py_len (Lst ts) = int (length ts)"

text \<open>
  Everything \<open>run_all_steps\<close> does before it hands over to the parent's
  \<open>run_all_steps\<close>.
\<close>

definition plan_variants :: "gromacs \<Rightarrow> error + gromacs" where
  "plan_variants s =
     (let s1 = s\<lparr>save_installopts := Some (installopts (eb s))\<rparr>;
          common_config_opts = configopts (eb s1);
          common_build_opts = buildopts (eb s1);
          common_install_opts = installopts (eb s1);
          s2 = s1\<lparr>save_install_cmd := Some (install_cmd (eb s1)),
                  save_build_cmd := Some (build_cmd (eb s1))\<rparr>;
          s3 = s2\<lparr>eb := (eb s2)\<lparr>configopts := Lst [], buildopts := Lst [],
                                  installopts := Lst []\<rparr>\<rparr>;
          s4 = s3\<lparr>double_prec_pattern := Some (prec_opts (version (eb s3)) Double)\<rparr>;
          s5 = (if ver_lt (version (eb s4)) [5]
                then s4\<lparr>eb := (eb s4)\<lparr>install_cmd := ''make''\<rparr>\<rparr> else s4);
          precs = precisions (eb s5);
          mpis = mpitypes (eb s5);
          s6 = s5\<lparr>variants_to_build := Some 0\<rparr>
      in bind_err
           (for_each (\<lambda>p. for_each (\<lambda>m. variant_body common_config_opts common_build_opts
                                             common_install_opts p m) mpis) precs ([], s6))
           (\<lambda>r.
              let versions_built = fst r; s7 = snd r;
                  s8 = s7\<lparr>variants_to_build := Some (py_len (configopts (eb s7)))\<rparr>;
                  s9 = log_add (Debug ''List of configure options to iterate over: %s''
                                  [pyval_of (configopts (eb s8))]) s8
              in Inr (log_add (Info ''Building these versions of GROMACS: %s''
                                 [PStr (join '', '' versions_built)]) s9)))"

text \<open>
  \<open>run_all_steps\<close> returns what the parent's \<open>run_all_steps\<close> returns; the
  statements that follow the \<open>return\<close> never run.
\<close>

definition run_all_steps ::
  "(gromacs \<Rightarrow> error + 'r \<times> gromacs) \<Rightarrow> gromacs \<Rightarrow> error + 'r \<times> gromacs" where
  "run_all_steps super_run_all_steps s = bind_err (plan_variants s) super_run_all_steps"

subsection \<open>The world outside the object\<close>

text \<open>
  What the methods ask of the framework, the operating system and the parent classes.
  A step of a parent class works on the part of the object it knows, and either fails
  with a message or returns that part updated.
\<close>

datatype optarch_val = OptNone | OptStr string | OptDict "(string \<times> string) list"

record world =
  software_root :: "string \<Rightarrow> string option"
  software_version :: "string \<Rightarrow> string option"
  software_libdir :: "string \<Rightarrow> string option"
  which :: "string \<Rightarrow> string option"
  run_cmd :: "string \<Rightarrow> string + string"
  re_search :: "string \<Rightarrow> string \<Rightarrow> bool"
  str_upper :: "string \<Rightarrow> string"
  glob :: "string \<Rightarrow> string list"
  path_exists :: "string \<Rightarrow> bool"
  shared_lib_ext :: string
  optarch :: optarch_val
  optarch_generic :: string
  comp_family :: string
  toolchain_is_craype :: bool
  cpu_is_x86_64 :: bool
  configuremake_configure_step :: "easyblock \<Rightarrow> string + easyblock"
  super_configure_step :: "easyblock \<Rightarrow> string + string \<times> easyblock"
  super_build_step :: "easyblock \<Rightarrow> string + easyblock"
  super_test_step :: "easyblock \<Rightarrow> string + easyblock"
  super_install_step :: "easyblock \<Rightarrow> string + easyblock"
  super_extensions_step :: "bool \<Rightarrow> easyblock \<Rightarrow> string + easyblock"

text \<open>
  \<open>software_root\<close>, \<open>software_version\<close> and \<open>software_libdir\<close> are
  \<open>get_software_root\<close> and its companions, \<open>run_cmd\<close> gives the output of a command
  or the message of its failure, \<open>re_search pattern text\<close> is \<open>re.search\<close> as a truth
  value, \<open>str_upper\<close> is \<open>str.upper\<close>. \<open>optarch\<close> is \<open>build_option('optarch')\<close> and \<open>optarch_generic\<close> the constant
  \<open>OPTARCH_GENERIC\<close>; \<open>toolchain_is_craype\<close> and \<open>cpu_is_x86_64\<close> are the
  comparisons of the toolchain family with \<open>toolchain.CRAYPE\<close> and of the CPU
  architecture with \<open>X86_64\<close>. \<open>configuremake_configure_step\<close> is the
  \<open>configure_step\<close> of \<open>ConfigureMake\<close>; the \<open>super\<close> steps are those of \<open>CMakeMake\<close>,
  whose \<open>configure_step\<close> returns the output of cmake.
\<close>

text \<open>Calling a step of the parent class on the object.\<close>

definition call_super :: "(easyblock \<Rightarrow> string + easyblock) \<Rightarrow> gromacs \<Rightarrow> error + gromacs" where
  "call_super step s =
     (case step (eb s) of Inl msg \<Rightarrow> Inl (ParentFailure msg) | Inr b \<Rightarrow> Inr (s\<lparr>eb := b\<rparr>))"

text \<open>Truth values: \<open>None\<close> and the empty string are false.\<close>

definition truthy :: "string option \<Rightarrow> bool" where
  "truthy r = (case r of None \<Rightarrow> False | Some p \<Rightarrow> p \<noteq> [])"

fun rt_truthy :: "rtval \<Rightarrow> bool" where
  "rt_truthy RNone = False"
| "rt_truthy (RBool b) = b"
| "rt_truthy (RStr t) = (t \<noteq> [])"

fun rt_is_bool :: "rtval \<Rightarrow> bool" where
  "rt_is_bool (RBool b) = True"
| "rt_is_bool r = False"

text \<open>\<open>'%s' % n\<close> for an integer.\<close>

fun str_nat :: "nat \<Rightarrow> string" where
  "str_nat n =
     (if n < 10 then [''0123456789'' ! n]
      else str_nat (n div 10) @ [''0123456789'' ! (n mod 10)])"

declare str_nat.simps [simp del]

definition str_int :: "int \<Rightarrow> string" where
  "str_int i = (if i < 0 then CHR ''-'' # str_nat (nat (- i)) else str_nat (nat i))"

text \<open>\<open>os.path.join\<close> and \<open>os.path.dirname\<close> on POSIX paths.\<close>

definition path_join :: "string \<Rightarrow> string \<Rightarrow> string" where
  "path_join a b =
     (if b \<noteq> [] \<and> hd b = CHR ''/'' then b
      else if a = [] \<or> last a = CHR ''/'' then a @ b
      else a @ ''/'' @ b)"

definition dirname :: "string \<Rightarrow> string" where
  "dirname p =
     (let head = rev (dropWhile (\<lambda>c. c \<noteq> CHR ''/'') (rev p))
      in if head \<noteq> [] \<and> list_ex (\<lambda>c. c \<noteq> CHR ''/'') head
         then rev (dropWhile (\<lambda>c. c = CHR ''/'') (rev head))
         else head)"

text \<open>\<open>env.setvar\<close> and \<open>self.cfg.update\<close> on the object.\<close>

definition setvar :: "string \<Rightarrow> string \<Rightarrow> gromacs \<Rightarrow> gromacs" where
  "setvar k v s = s\<lparr>eb := (eb s)\<lparr>environ := (environ (eb s))(k \<mapsto> v)\<rparr>\<rparr>"

definition update_configopts :: "string \<Rightarrow> gromacs \<Rightarrow> gromacs" where
  "update_configopts v s =
     s\<lparr>eb := (eb s)\<lparr>configopts := cfg_update (configopts (eb s)) (Str v)\<rparr>\<rparr>"

definition update_installopts :: "string \<Rightarrow> gromacs \<Rightarrow> gromacs" where
  "update_installopts v s =
     s\<lparr>eb := (eb s)\<lparr>installopts := cfg_update (installopts (eb s)) (Str v)\<rparr>\<rparr>"

text \<open>
  \<open>self.cfg.update('runtest', v)\<close>: the framework refuses to update a parameter that
  is neither a string nor a list.
\<close>

definition update_runtest :: "string \<Rightarrow> gromacs \<Rightarrow> error + gromacs" where
  "update_runtest v s =
     (case runtest (eb s) of
        RStr t \<Rightarrow> Inr (s\<lparr>eb := (eb s)\<lparr>runtest := RStr (t @ '' '' @ v @ '' '')\<rparr>\<rparr>)
      | RNone \<Rightarrow> Inl (ParentFailure ''update'')
      | RBool b \<Rightarrow> Inl (ParentFailure ''update''))"

subsection \<open>is_double_precision_cuda_build\<close>

text \<open>
  \<open>cuda and self.double_prec_pattern in self.cfg['configopts']\<close>, as a truth value:
  the pattern is only looked up when a CUDA root is set.
\<close>

definition is_double_precision_cuda_build :: "world \<Rightarrow> gromacs \<Rightarrow> error + bool" where
  "is_double_precision_cuda_build w s =
     (if \<not> truthy (software_root w ''CUDA'') then Inr False
      else case double_prec_pattern s of
             None \<Rightarrow> Inl (AttributeError ''double_prec_pattern'')
           | Some pat \<Rightarrow> Inr (py_in pat (configopts (eb s))))"

subsection \<open>get_gromacs_arch\<close>

definition get_gromacs_arch :: "world \<Rightarrow> gromacs \<Rightarrow> string option \<times> gromacs" where
  "get_gromacs_arch w s =
     (let optarch0 = (case optarch w of
                        OptNone \<Rightarrow> ''''
                      | OptStr t \<Rightarrow> t
                      | OptDict d \<Rightarrow>
                          if d = [] then ''''
                          else (case map_of d (comp_family w) of None \<Rightarrow> '''' | Some t \<Rightarrow> t));
          oa = str_upper w optarch0;
          v = version (eb s);
          res =
            (if sublist ''MIC-AVX512'' oa \<and> \<not> ver_lt v [2016] then Some ''AVX_512_KNL''
             else if sublist ''AVX512'' oa \<and> \<not> ver_lt v [2016] then Some ''AVX_512''
             else if sublist ''AVX2'' oa \<and> \<not> ver_lt v [5, 0] then Some ''AVX2_256''
             else if sublist ''AVX'' oa then Some ''AVX_256''
             else if sublist ''SSE3'' oa \<or> sublist ''SSE2'' oa \<or> sublist ''MARCH=NOCONA'' oa
               then Some ''SSE2''
             else if oa = optarch_generic w
               then (if cpu_is_x86_64 w then Some ''SSE2'' else Some ''None'')
             else None);
          warns = (res = None \<and> oa \<noteq> []);
          s1 = (if warns
                then log_add (Warning (''--optarch configuration setting set to '' @ oa @
                        '' but not taken into account; compiling GROMACS for the current host architecture (i.e. the default behavior)'') []) s
                else s)
      in if truthy res
         then (res, log_add (Info ''Target architecture based on optarch configuration option ('%s'): %s''
                               [PStr oa, PStr (case res of None \<Rightarrow> '''' | Some r \<Rightarrow> r)]) s1)
         else (res, log_add (Info ''No target architecture specified based on optarch configuration option ('%s')''
                               [PStr oa]) s1))"

subsection \<open>configure_step\<close>

text \<open>A block of a method either returns from the method or falls through.\<close>

datatype 'a flow = Return 'a | Continue 'a

text \<open>\<open>'%s' % self.version\<close>, \<open>s.split(c)\<close>, \<open>os.environ[k]\<close>.\<close>

definition ver_str :: "nat list \<Rightarrow> string" where
  "ver_str v = join ''.'' (map str_nat v)"

fun split_on :: "char \<Rightarrow> string \<Rightarrow> string list" where
  "split_on c [] = [[]]"
| "split_on c (x # xs) =
     (if x = c then [] # split_on c xs
      else (case split_on c xs of [] \<Rightarrow> [[x]] | y # ys \<Rightarrow> (x # y) # ys))"

definition environ_get :: "string \<Rightarrow> gromacs \<Rightarrow> error + string" where
  "environ_get k s = (case environ (eb s) k of None \<Rightarrow> Inl (KeyError k) | Some v \<Rightarrow> Inr v)"

definition environ_get_default :: "string \<Rightarrow> string \<Rightarrow> gromacs \<Rightarrow> string" where
  "environ_get_default k d s = (case environ (eb s) k of None \<Rightarrow> d | Some v \<Rightarrow> v)"

text \<open>\<open>os.getenv(k).split(',')\<close>: \<open>None\<close> has no \<open>split\<close>.\<close>

definition getenv_split :: "string \<Rightarrow> gromacs \<Rightarrow> error + string list" where
  "getenv_split k s =
     (case environ (eb s) k of
        None \<Rightarrow> Inl (AttributeError ''split'')
      | Some v \<Rightarrow> Inr (split_on CHR '','' v))"

text \<open>
  \<open>[os.path.join(libdir, lib) for lib in libs if lib != 'libgfortran.a']\<close>, where
  \<open>libdir\<close> comes from \<open>os.getenv\<close>: joining \<open>None\<close> is a \<open>TypeError\<close>.
\<close>

definition join_libs :: "string option \<Rightarrow> string list \<Rightarrow> error + string list" where
  "join_libs libdir libs =
     (let kept = filter (\<lambda>lib. lib \<noteq> ''libgfortran.a'') libs
      in case libdir of
           None \<Rightarrow> (if kept = [] then Inr [] else Inl TypeError)
         | Some d \<Rightarrow> Inr (map (path_join d) kept))"

text \<open>\<open>run_cmd(cmd, log_all=True)\<close>: a failing command raises.\<close>

definition run_command :: "world \<Rightarrow> string \<Rightarrow> gromacs \<Rightarrow> error + gromacs" where
  "run_command w cmd s =
     (case run_cmd w cmd of Inl msg \<Rightarrow> Inl (ParentFailure msg) | Inr out \<Rightarrow> Inr s)"

text \<open>Lines 159 to 184: the CUDA check.\<close>

definition configure_gpu :: "world \<Rightarrow> gromacs \<Rightarrow> error + gromacs flow" where
  "configure_gpu w s =
     (if \<not> ver_lt (version (eb s)) [4, 6] then
        (case software_root w ''CUDA'' of
           None \<Rightarrow> Inr (Continue (update_configopts ''-DGMX_GPU=OFF'' s))
         | Some cuda \<Rightarrow>
             if cuda = [] then Inr (Continue (update_configopts ''-DGMX_GPU=OFF'' s))
             else if double_precision (eb s) = Some True then Inl DoublePrecisionGPU
             else (case double_prec_pattern s of
                     None \<Rightarrow> Inl (AttributeError ''double_prec_pattern'')
                   | Some pat \<Rightarrow>
                       if py_in pat (configopts (eb s)) then
                         let s1 = (if double_precision (eb s) = None
                                   then log_add (Info ''Double precision is not available for GPU build. Skipping the double precision build.'' [])
                                          (s\<lparr>eb := (eb s)\<lparr>double_precision := Some False\<rparr>\<rparr>)
                                   else s)
                         in Inr (Return (log_add (Info ''skipping configure step'' []) s1))
                       else Inr (Continue (update_configopts
                              (''-DGMX_GPU=ON -DCUDA_TOOLKIT_ROOT_DIR='' @ cuda) s))))
      else Inr (Continue s))"

text \<open>
  Lines 186 to 199: the PLUMED check. The result is \<open>plumed_cmd\<close>, which exists when
  \<open>plumed_root\<close> is set.
\<close>

definition configure_plumed_check :: "world \<Rightarrow> gromacs \<Rightarrow> error + string option" where
  "configure_plumed_check w s =
     (if truthy (software_root w ''PLUMED'') then
        let engine = ''gromacs-'' @ ver_str (version (eb s))
        in (case run_cmd w ''plumed-patch -l'' of
              Inl msg \<Rightarrow> Inl (ParentFailure msg)
            | Inr out \<Rightarrow>
                if \<not> re_search w engine out
                then Inl (PlumedNoSupport (software_version w ''PLUMED'') (ver_str (version (eb s))) out)
                else Inr (Some (''plumed-patch -p -e '' @ engine)))
      else Inr None)"

text \<open>Lines 201 to 238: the configure script of the versions before 4.6.\<close>

definition configure_autotools :: "world \<Rightarrow> string option \<Rightarrow> gromacs \<Rightarrow> error + gromacs" where
  "configure_autotools w plumed_cmd s =
     (let s1 = log_add (Info ''Using configure script for configuring GROMACS build.'' []) s;
          s2 = update_configopts (if build_shared_libs (eb s1)
                                  then ''--enable-shared --disable-static''
                                  else ''--enable-static'') s1;
          s3 = update_configopts ''--with-external-blas --with-external-lapack'' s2
      in bind_err (environ_get ''LIBLAPACK'' s3) (\<lambda>liblapack.
         bind_err (environ_get ''LIBS'' s3) (\<lambda>libs.
         let s4 = setvar ''LIBS'' (liblapack @ '' '' @ libs) s3;
             s5 = update_configopts ''--without-x'' s4
         in bind_err
              (if \<not> ver_lt (version (eb s5)) [4, 5]
               then Inr (update_configopts (if openmp (eb s5) then ''--enable-threads''
                                            else ''--disable-threads'') s5)
               else if openmp (eb s5) then Inl (OpenMPNotSupported (ver_str (version (eb s5))))
               else Inr s5) (\<lambda>s6.
            let s7 = update_configopts (if truthy (software_root w ''GSL'') then ''--with-gsl''
                                        else ''--without-gsl'') s6;
                s8 = s7\<lparr>eb := (eb s7)\<lparr>configure_cmd := ''./configure''\<rparr>\<rparr>
            in bind_err (call_super (configuremake_configure_step w) s8) (\<lambda>s9.
               case plumed_cmd of None \<Rightarrow> Inr s9 | Some cmd \<Rightarrow> run_command w cmd s9)))))"

text \<open>Lines 241 to 261: the MPI executable for the tests.\<close>

definition configure_mpiexec :: "world \<Rightarrow> gromacs \<Rightarrow> error + gromacs" where
  "configure_mpiexec w s =
     (if py_in ''-DGMX_MPI=ON'' (configopts (eb s)) then
        let n0 = mpi_numprocs (eb s);
            s1 = (if n0 = 0
                  then log_add (Info ''No number of test MPI tasks specified -- using default: %s''
                                  [PInt (parallel (eb s))]) s
                  else if n0 > parallel (eb s)
                  then log_add (Warning ''Number of test MPI tasks (%s) is greater than value for 'parallel': %s''
                                  [PInt n0, PInt (parallel (eb s))]) s
                  else s);
            n = (if n0 = 0 then parallel (eb s) else n0)
        in bind_err
             (case which w (mpiexec (eb s1)) of
                None \<Rightarrow> if rt_truthy (runtest (eb s1)) then Inl (MpiexecNotFound (mpiexec (eb s1)))
                        else Inr s1
              | Some path \<Rightarrow>
                  if path = [] then
                    (if rt_truthy (runtest (eb s1)) then Inl (MpiexecNotFound (mpiexec (eb s1)))
                     else Inr s1)
                  else Inr (update_configopts (''-DNUMPROC='' @ str_int n)
                           (update_configopts (''-DMPIEXEC_NUMPROC_FLAG='' @ mpiexec_numproc_flag (eb s1))
                           (update_configopts (''-DMPIEXEC='' @ path) s1))))
             (\<lambda>s2. Inr (log_add (Info ''Using %s as MPI executable when testing, with numprocs flag '%s' and %s tasks''
                                   [PStr (mpiexec (eb s2)), PStr (mpiexec_numproc_flag (eb s2)), PInt n]) s2))
      else Inr s)"

text \<open>Lines 263 to 274: gmxapi and the Python package.\<close>

definition configure_gmxapi :: "world \<Rightarrow> gromacs \<Rightarrow> gromacs" where
  "configure_gmxapi w s =
     (if \<not> ver_lt (version (eb s)) [2019] then
        let s1 = update_configopts ''-DGMXAPI=ON'' (s\<lparr>eb := (eb s)\<lparr>build_shared_libs := True\<rparr>\<rparr>)
        in if \<not> ver_lt (version (eb s1)) [2020] then
             (case software_root w ''Python'' of
                None \<Rightarrow> s1
              | Some python_root \<Rightarrow>
                  if python_root = [] then s1
                  else update_configopts ''-DGMX_PYTHON_PACKAGE=ON''
                         (update_configopts (''-DPYTHON_EXECUTABLE='' @
                            path_join (path_join python_root ''bin'') ''python'') s1))
           else s1
      else s)"

text \<open>Lines 276 to 289: patching for PLUMED before cmake.\<close>

definition configure_plumed_patch :: "world \<Rightarrow> string option \<Rightarrow> gromacs \<Rightarrow> error + gromacs" where
  "configure_plumed_patch w plumed_cmd s =
     (case plumed_cmd of
        None \<Rightarrow> Inr s
      | Some cmd \<Rightarrow>
          run_command w
            (if \<not> ver_lt (version (eb s)) [5, 1]
             then cmd @ '' -m '' @ (if build_shared_libs (eb s) then ''shared'' else ''static'')
             else cmd) s)"

text \<open>Lines 291 to 323: the options that cannot fail.\<close>

definition configure_simd :: "world \<Rightarrow> gromacs \<Rightarrow> gromacs" where
  "configure_simd w s =
     (if \<not> toolchain_is_craype w then
        let r = get_gromacs_arch w s; gmx_simd = fst r; s1 = snd r
        in (case gmx_simd of
              None \<Rightarrow> s1
            | Some a \<Rightarrow>
                if a = [] then s1
                else if ver_lt (version (eb s1)) [5, 0]
                then update_configopts (''-DGMX_CPU_ACCELERATION='' @ a) s1
                else update_configopts (''-DGMX_SIMD='' @ a) s1)
      else s)"

definition configure_plain_opts :: "world \<Rightarrow> gromacs \<Rightarrow> gromacs" where
  "configure_plain_opts w s =
     (let s1 = update_configopts (if build_shared_libs (eb s) then ''-DGMX_PREFER_STATIC_LIBS=OFF''
                                  else ''-DGMX_PREFER_STATIC_LIBS=ON'') s;
          s2 = update_configopts ''-DGMX_EXTERNAL_BLAS=ON -DGMX_EXTERNAL_LAPACK=ON'' s1;
          s3 = update_configopts ''-DGMX_X11=OFF'' s2;
          s4 = configure_simd w s3;
          s5 = (if list_ex (prefix ''regressiontests'') (src_names (eb s4))
                then update_configopts
                       (''-DREGRESSIONTEST_PATH='' @ [CHR 0x27] @
                        ''%(builddir)s/regressiontests-%(version)s'' @ [CHR 0x27] @ '' '') s4
                else s4)
      in update_configopts (if openmp (eb s5) then ''-DGMX_OPENMP=ON'' else ''-DGMX_OPENMP=OFF'') s5)"

text \<open>Lines 325 to 348: FFT, BLAS and LAPACK.\<close>

definition configure_blas_lib :: "world \<Rightarrow> string \<Rightarrow> gromacs \<Rightarrow> error + gromacs" where
  "configure_blas_lib w libname s =
     (let libdir = environ (eb s) (libname @ ''_LIB_DIR'')
      in if toolchain_is_craype w then
           (case libdir of
              None \<Rightarrow> Inl TypeError
            | Some d \<Rightarrow>
                (case glob w (path_join d ''libsci_*_mpi_mp.a'') of
                   [] \<Rightarrow> Inl (LibsciNotFound libname)
                 | lib # libs \<Rightarrow>
                     Inr (update_configopts (''-DGMX_'' @ libname @ ''_USER='' @ lib) s)))
         else
           bind_err (getenv_split (libname @ ''_STATIC_LIBS'') s) (\<lambda>libs.
           bind_err (join_libs libdir libs) (\<lambda>libpaths.
             let s1 = update_configopts (''-DGMX_'' @ libname @ ''_USER='' @ [CHR 0x22] @
                                           join '';'' libpaths @ [CHR 0x22]) s
             in Inr (if ''libgfortran.a'' \<in> set libs
                     then setvar ''LDFLAGS'' (environ_get_default ''LDFLAGS'' '''' s1 @ '' -lgfortran -lm'') s1
                     else s1))))"

definition configure_blas :: "world \<Rightarrow> gromacs \<Rightarrow> error + gromacs" where
  "configure_blas w s =
     (if truthy (software_root w ''imkl'') then
        let s1 = update_configopts (''-DGMX_FFT_LIBRARY=mkl -DMKL_INCLUDE_DIR='' @ [CHR 0x22] @
                                      ''$EBROOTMKL/mkl/include'' @ [CHR 0x22] @ '' '') s
        in bind_err (getenv_split ''LAPACK_STATIC_LIBS'' s1) (\<lambda>libs.
           bind_err (join_libs (environ (eb s1) ''LAPACK_LIB_DIR'') libs) (\<lambda>mkl_libs.
             Inr (update_configopts (''-DMKL_LIBRARIES='' @ [CHR 0x22] @
                    join '';'' ([''-Wl,--start-group''] @ mkl_libs @ [''-Wl,--end-group'']) @
                    [CHR 0x22] @ '' '') s1)))
      else for_each (configure_blas_lib w) [''BLAS'', ''LAPACK''] s)"

text \<open>Lines 350 to 365: GSL, and the linker flags for XZ and zlib.\<close>

definition configure_gsl :: "world \<Rightarrow> gromacs \<Rightarrow> gromacs" where
  "configure_gsl w s =
     (if ver_lt (version (eb s)) [5, 0]
      then update_configopts (if truthy (software_root w ''GSL'') then ''-DGMX_GSL=ON''
                              else ''-DGMX_GSL=OFF'') s
      else s)"

definition configure_ldflags :: "world \<Rightarrow> string \<times> string \<Rightarrow> gromacs \<Rightarrow> error + gromacs" where
  "configure_ldflags w dl s =
     (case software_root w (fst dl) of
        None \<Rightarrow> Inr s
      | Some root \<Rightarrow>
          if root = [] then Inr s
          else (case software_libdir w (fst dl) of
                  None \<Rightarrow> Inl TypeError
                | Some libdir \<Rightarrow>
                    Inr (setvar ''LDFLAGS''
                           (environ_get_default ''LDFLAGS'' '''' s @ '' -L'' @ path_join root libdir @
                            '' '' @ snd dl) s)))"

text \<open>Lines 367 to 380: cmake, and the patterns its output must show.\<close>

definition check_pattern :: "world \<Rightarrow> string \<Rightarrow> string \<Rightarrow> unit \<Rightarrow> error + unit" where
  "check_pattern w out pattern u =
     (if \<not> re_search w pattern out then Inl (PatternNotFound pattern) else Inr ())"

definition configure_run_cmake :: "world \<Rightarrow> gromacs \<Rightarrow> error + gromacs" where
  "configure_run_cmake w s =
     (case super_configure_step w (eb s) of
        Inl msg \<Rightarrow> Inl (ParentFailure msg)
      | Inr r \<Rightarrow>
          let out = fst r; s1 = s\<lparr>eb := snd r\<rparr>
          in if \<not> ver_lt (version (eb s1)) [4, 6, 5]
             then bind_err
                    (for_each (check_pattern w out)
                       [''Using external FFT library - '' @ [CHR 0x5C] @ ''S*'',
                        ''Looking for dgemm_ - found'',
                        ''Looking for cheev_ - found''] ())
                    (\<lambda>u. Inr s1)
             else Inr s1)"

text \<open>Lines 263 to 380, after the MPI executable has been dealt with.\<close>

definition configure_cmake_tail :: "world \<Rightarrow> string option \<Rightarrow> gromacs \<Rightarrow> error + gromacs" where
  "configure_cmake_tail w plumed_cmd s1 =
     bind_err (configure_plumed_patch w plumed_cmd (configure_gmxapi w s1)) (\<lambda>s2.
     bind_err (configure_blas w (configure_plain_opts w s2)) (\<lambda>s3.
     bind_err (for_each (configure_ldflags w) [(''XZ'', ''-llzma''), (''zlib'', ''-lz'')]
                 (configure_gsl w s3)) (\<lambda>s4.
     configure_run_cmake w s4)))"

definition configure_cmake :: "world \<Rightarrow> string option \<Rightarrow> gromacs \<Rightarrow> error + gromacs" where
  "configure_cmake w plumed_cmd s =
     bind_err (configure_mpiexec w s) (configure_cmake_tail w plumed_cmd)"

definition configure_step :: "world \<Rightarrow> gromacs \<Rightarrow> error + gromacs" where
  "configure_step w s =
     bind_err (configure_gpu w s) (\<lambda>r.
       case r of
         Return s1 \<Rightarrow> Inr s1
       | Continue s1 \<Rightarrow>
           bind_err (configure_plumed_check w s1) (\<lambda>plumed_cmd.
             if ver_lt (version (eb s1)) [4, 6]
             then configure_autotools w plumed_cmd s1
             else configure_cmake w plumed_cmd s1))"

subsection \<open>build_step, test_step, install_step, extensions_step\<close>


text \<open>Lines 401 to 416 of \<open>test_step\<close>: what runs when the variant is not skipped.\<close>

definition run_tests :: "world \<Rightarrow> gromacs \<Rightarrow> error + gromacs" where
  "run_tests w s =
     (if runtest (eb s) = RNone \<or> rt_truthy (runtest (eb s)) then
        let old_runtest = runtest (eb s);
            s1 = setvar ''OMP_NUM_THREADS'' ''1'' s;
            s2 = (if runtest (eb s1) = RNone \<or> rt_is_bool (runtest (eb s1))
                  then s1\<lparr>eb := (eb s1)\<lparr>runtest := RStr ''check''\<rparr>\<rparr> else s1)
        in bind_err (update_runtest (''-j '' @ str_int (parallel (eb s2))) s2) (\<lambda>s3.
           bind_err (call_super (super_test_step w) s3) (\<lambda>s4.
             Inr (s4\<lparr>eb := (eb s4)\<lparr>runtest := old_runtest\<rparr>\<rparr>)))
      else Inr s)"

definition test_step :: "world \<Rightarrow> gromacs \<Rightarrow> error + gromacs" where
  "test_step w s =
     bind_err (is_double_precision_cuda_build w s) (\<lambda>skip.
       if skip then Inr (log_add (Info ''skipping test step'' []) s)
       else run_tests w s)"

text \<open>
  The search for the library directory in \<open>install_step\<close>: the inner loop stops at
  the first sub-directory in which the pattern matches, the outer loop goes on.
\<close>

fun find_lib_subdir :: "world \<Rightarrow> string \<Rightarrow> string list \<Rightarrow> gromacs \<Rightarrow> gromacs" where
  "find_lib_subdir w libname [] s = s"
| "find_lib_subdir w libname (subdir # subdirs) s =
     (let libpaths = glob w (path_join (path_join (installdir (eb s)) subdir) libname)
      in if libpaths \<noteq> []
         then let s1 = s\<lparr>lib_subdir := drop (length (installdir (eb s)) + 1) (dirname (hd libpaths))\<rparr>
              in log_add (Info ''Found lib subdirectory that contains %s: %s''
                            [PStr libname, PStr (lib_subdir s1)]) s1
         else find_lib_subdir w libname subdirs s)"

fun find_lib_dirs :: "world \<Rightarrow> string \<Rightarrow> string list \<Rightarrow> gromacs \<Rightarrow> gromacs" where
  "find_lib_dirs w libname [] s = s"
| "find_lib_dirs w libname (libdir # libdirs) s =
     find_lib_dirs w libname libdirs
       (if path_exists w (path_join (installdir (eb s)) libdir)
        then find_lib_subdir w libname [libdir, path_join libdir ''*''] s
        else s)"

text \<open>Lines 436 to 453: the library extension, the pattern and the two loops.\<close>

definition locate_libs :: "world \<Rightarrow> gromacs \<Rightarrow> gromacs" where
  "locate_libs w s =
     (let s1 = s\<lparr>libext := (if build_shared_libs (eb s) then shared_lib_ext w else ''a'')\<rparr>;
          libname = (if ver_lt (version (eb s1)) [5, 0] then ''libgmx*.'' @ libext s1
                     else ''libgromacs*.'' @ libext s1)
      in find_lib_dirs w libname [''lib'', ''lib64''] s1)"

text \<open>
  Lines 432 to 458 of \<open>install_step\<close>: what follows the parent's \<open>install_step\<close>.
\<close>

definition install_finish :: "world \<Rightarrow> gromacs \<Rightarrow> error + gromacs" where
  "install_finish w s2 =
     (let s3 = locate_libs w s2
      in if lib_subdir s3 = [] then Inl (LibSubdirNotFound (installdir (eb s3)))
         else case save_installopts s3 of
                None \<Rightarrow> Inl (AttributeError ''save_installopts'')
              | Some saved \<Rightarrow> Inr (s3\<lparr>eb := (eb s3)\<lparr>installopts := saved\<rparr>\<rparr>))"

definition install_step :: "world \<Rightarrow> gromacs \<Rightarrow> error + gromacs" where
  "install_step w s =
     bind_err (is_double_precision_cuda_build w s) (\<lambda>skip.
       if skip then Inr (log_add (Info ''skipping install step'' []) s)
       else bind_err (call_super (super_install_step w)
                        (update_installopts (''-j '' @ str_int (parallel (eb s))) s))
              (install_finish w))"

definition extensions_step :: "world \<Rightarrow> bool \<Rightarrow> gromacs \<Rightarrow> error + gromacs" where
  "extensions_step w fetch s =
     (case variants_to_build s of
        None \<Rightarrow> Inl (AttributeError ''variants_to_build'')
      | Some n \<Rightarrow>
          if iter_idx (eb s) < n - 1
          then Inr (log_add (Info ''skipping extension step %s'' [PInt (iter_idx (eb s))]) s)
          else call_super (super_extensions_step w fetch)
                 (s\<lparr>eb := (eb s)\<lparr>runtest := RNone\<rparr>\<rparr>))"

subsection \<open>The planned state in closed form\<close>

text \<open>The state that the planning leaves, in closed form.\<close>

definition planned :: "gromacs \<Rightarrow> string \<Rightarrow> string \<Rightarrow> string \<Rightarrow> gromacs" where
  "planned s cc cb ci =
    (let vs = List.product (precisions (eb s)) (mpitypes (eb s));
         v = version (eb s);
         confs = map (\<lambda>(p, m). join '' '' (var_confopts v (mpisuffix (eb s)) p m) @ '' '' @ cc) vs
     in s\<lparr>eb := (eb s)\<lparr>
            configopts := Lst confs,
            buildopts := Lst (map (\<lambda>(p, m). join '' '' (var_buildopts v m) @ '' '' @ cb) vs),
            installopts := Lst (map (\<lambda>(p, m). join '' '' (var_installopts v m) @ '' '' @ ci) vs),
            install_cmd := (if ver_lt v [5] then ''make'' else install_cmd (eb s)),
            log := log (eb s) @
              [Debug ''List of configure options to iterate over: %s'' [PList confs],
               Info ''Building these versions of GROMACS: %s''
                 [PStr (join '', '' (map (\<lambda>(p, m). prec_name p @ '' precision '' @ mpi_name m) vs))]]\<rparr>,
          save_installopts := Some (Str ci),
          save_install_cmd := Some (install_cmd (eb s)),
          save_build_cmd := Some (build_cmd (eb s)),
          double_prec_pattern := Some (prec_opts v Double),
          variants_to_build := Some (int (length vs))\<rparr>)"

subsection \<open>The specification's planVariants\<close>

text \<open>
  The planner as the specification words it: one variant per point of the cross product
  of the axes, the first axis outermost, each carrying its fragments in the order of the
  axes, joined by single spaces and followed by the common options.
\<close>

definition spec_plan_variants :: "string list list \<Rightarrow> string \<Rightarrow> string list" where
  "spec_plan_variants axes common = map (\<lambda>frags. join '' '' (frags @ [common])) (product_lists axes)"

subsection \<open>The rounds of a build\<close>

text \<open>
  Modelled from the spec: the loop of the host framework over the variants is not part
  of the source. The specification's \<open>runAll\<close> runs the pipeline once per variant, in
  the order of the sequence, with the zero-based index of the running variant as the
  current index. \<open>run_extensions\<close> keeps of each of the \<open>n\<close> rounds the extensions step,
  run with \<open>iter_idx\<close> set to the index of the round.
\<close>

definition run_extensions :: "world \<Rightarrow> bool \<Rightarrow> nat \<Rightarrow> gromacs \<Rightarrow> error + gromacs" where
  "run_extensions w fetch n s =
     for_each (\<lambda>i t. extensions_step w fetch (t\<lparr>eb := (eb t)\<lparr>iter_idx := int i\<rparr>\<rparr>)) [0..<n] s"

subsection \<open>Example inputs\<close>

text \<open>
  GROMACS 2020.1 with an MPI toolchain, \<open>double_precision\<close> left unset and
  \<open>--X\<close> as the common configure option.
\<close>

definition example_easyblock :: easyblock where
  "example_easyblock =
     \<lparr>configopts = Str ''--X'', buildopts = Str ''-k'', installopts = Str ''V=1'',
      install_cmd = ''make install'', build_cmd = ''make'', configure_cmd = ''cmake'',
      double_precision = None, runtest = RNone, parallel = 4, mpisuffix = ''_mpi'',
      mpiexec = ''mpirun'', mpiexec_numproc_flag = ''-np'', mpi_numprocs = 0,
      build_shared_libs = False, usempi = True, openmp = True, version = [2020, 1],
      src_names = [''gromacs-2020.1.tar.gz''], installdir = ''/opt/gromacs'', iter_idx = 0,
      environ = Map.empty, log = []\<rparr>"

definition example_gromacs :: gromacs where
  "example_gromacs =
     \<lparr>eb = example_easyblock, lib_subdir = '''', libext = '''', double_prec_pattern = None,
      save_installopts = None, save_install_cmd = None, save_build_cmd = None,
      variants_to_build = None\<rparr>"

text \<open>GROMACS 4.5.5 with \<open>double_precision\<close> set.\<close>

definition example_gromacs_45 :: gromacs where
  "example_gromacs_45 =
     example_gromacs\<lparr>eb := example_easyblock\<lparr>version := [4, 5, 5], double_precision := Some True,
                                               configure_cmd := ''./configure''\<rparr>\<rparr>"

text \<open>
  A world without optional dependencies in which every step of the parent classes
  succeeds and changes nothing, with the GROMACS library under \<open>lib64\<close>; the same world
  with a CUDA root; and the states in which the steps of the second (single precision,
  MPI) and of the fourth (double precision, MPI) planned variant run.
\<close>

text \<open>Upper-casing of the letters a to z, which is \<open>str.upper\<close> on ASCII strings.\<close>

definition upper_char :: "char \<Rightarrow> char" where
  "upper_char c =
     (if (97::nat) \<le> of_char c \<and> of_char c \<le> (122::nat)
      then char_of (of_char c - (32::nat)) else c)"

definition example_world :: world where
  "example_world =
     \<lparr>software_root = (\<lambda>name. None), software_version = (\<lambda>name. None),
      software_libdir = (\<lambda>name. None), which = (\<lambda>name. None),
      run_cmd = (\<lambda>cmd. Inr ''''), re_search = (\<lambda>pattern text. True),
      str_upper = map upper_char,
      glob = (\<lambda>pattern. if pattern = ''/opt/gromacs/lib64/libgromacs*.a''
                         then [''/opt/gromacs/lib64/libgromacs.a''] else []),
      path_exists = (\<lambda>path. path = ''/opt/gromacs/lib64''),
      shared_lib_ext = ''so'', optarch = OptNone, optarch_generic = ''GENERIC'',
      comp_family = ''GCC'', toolchain_is_craype = False, cpu_is_x86_64 = True,
      configuremake_configure_step = Inr, super_configure_step = (\<lambda>b. Inr ('''', b)),
      super_build_step = Inr, super_test_step = Inr, super_install_step = Inr,
      super_extensions_step = (\<lambda>fetch. Inr)\<rparr>"

definition example_world_cuda :: world where
  "example_world_cuda =
     example_world\<lparr>software_root := (\<lambda>name. if name = ''CUDA'' then Some ''/opt/cuda'' else None)\<rparr>"

definition example_single_mpi :: gromacs where
  "example_single_mpi =
     (let s = planned example_gromacs ''--X'' ''-k'' ''V=1''
      in s\<lparr>eb := (eb s)\<lparr>configopts := Str ''-DGMX_MPI=ON -DGMX_THREAD_MPI=OFF -DGMX_DOUBLE=OFF --X'',
                          buildopts := Str '' -k'', installopts := Str ''install V=1'',
                          iter_idx := 1\<rparr>\<rparr>)"

definition example_double_mpi :: gromacs where
  "example_double_mpi =
     (let s = planned example_gromacs ''--X'' ''-k'' ''V=1''
      in s\<lparr>eb := (eb s)\<lparr>configopts := Str ''-DGMX_MPI=ON -DGMX_THREAD_MPI=OFF -DGMX_DOUBLE=ON --X'',
                          buildopts := Str '' -k'', installopts := Str ''install V=1'',
                          iter_idx := 3, runtest := RBool True\<rparr>\<rparr>)"

text \<open>
  A parent \<open>extensions_step\<close> that leaves a line in the log, and the state of a round
  with an empty log.
\<close>

definition example_world_ext :: world where
  "example_world_ext =
     example_world\<lparr>super_extensions_step :=
       (\<lambda>fetch b. Inr (b\<lparr>log := log b @ [Info ''installing extensions'' []]\<rparr>))\<rparr>"

definition example_last_round :: gromacs where
  "example_last_round = example_single_mpi\<lparr>eb := (eb example_single_mpi)\<lparr>log := []\<rparr>\<rparr>"

text \<open>
  The round of the double precision MPI variant of GROMACS 4.5.5, with the environment
  that its configure script reads; the fourth round of GROMACS 2020.1 with
  \<open>double_precision = True\<close>; and its second round with \<open>runtest = True\<close>.
\<close>

definition example_double_mpi_45 :: gromacs where
  "example_double_mpi_45 =
     (let s = planned example_gromacs_45 ''--X'' ''-k'' ''V=1''
      in s\<lparr>eb := (eb s)\<lparr>configopts := Str ''--enable-mpi --enable-double --program-suffix=_mpi_d --X'',
                          buildopts := Str ''mdrun -k'', installopts := Str ''install-mdrun V=1'',
                          iter_idx := 3,
                          environ := [''LIBLAPACK'' \<mapsto> ''-llapack'', ''LIBS'' \<mapsto> ''-lm'']\<rparr>\<rparr>)"

definition example_double_mpi_requested :: gromacs where
  "example_double_mpi_requested =
     example_double_mpi\<lparr>eb := (eb example_double_mpi)\<lparr>double_precision := Some True\<rparr>\<rparr>"

definition example_single_mpi_tested :: gromacs where
  "example_single_mpi_tested =
     example_single_mpi\<lparr>eb := (eb example_single_mpi)\<lparr>runtest := RBool True\<rparr>\<rparr>"

text \<open>
  The same easyconfig with \<open>double_precision = False\<close>, with a toolchain without MPI,
  and with both.
\<close>

definition example_gromacs_no_double :: gromacs where
  "example_gromacs_no_double =
     example_gromacs\<lparr>eb := example_easyblock\<lparr>double_precision := Some False\<rparr>\<rparr>"

definition example_gromacs_no_mpi :: gromacs where
  "example_gromacs_no_mpi = example_gromacs\<lparr>eb := example_easyblock\<lparr>usempi := False\<rparr>\<rparr>"

definition example_gromacs_single_serial :: gromacs where
  "example_gromacs_single_serial =
     example_gromacs\<lparr>eb := example_easyblock\<lparr>double_precision := Some False, usempi := False\<rparr>\<rparr>"


section \<open>Properties\<close>

subsection \<open>The variant loops\<close>

lemma bind_err_simps:
  "bind_err (Inr x) f = f x"
  "bind_err (Inl e) f = Inl e"
  "bind_err r Inr = r"
  by (simp_all add: bind_err_def split: sum.splits)

lemma variant_body_str:
  "variant_body (Str cc) (Str cb) (Str ci) p m (vb, s) =
     Inr (vb @ [prec_name p @ '' precision '' @ mpi_name m],
          s\<lparr>eb := (eb s)\<lparr>
             configopts := cfg_update (configopts (eb s))
                 (Lst [join '' '' (var_confopts (version (eb s)) (mpisuffix (eb s)) p m) @ '' '' @ cc]),
             buildopts := cfg_update (buildopts (eb s))
                 (Lst [join '' '' (var_buildopts (version (eb s)) m) @ '' '' @ cb]),
             installopts := cfg_update (installopts (eb s))
                 (Lst [join '' '' (var_installopts (version (eb s)) m) @ '' '' @ ci])\<rparr>\<rparr>)"
  by (simp add: variant_body_def str_plus_def bind_err_def Let_def)

lemma inner_loop:
  "configopts (eb s) = Lst xs \<Longrightarrow> buildopts (eb s) = Lst ys \<Longrightarrow> installopts (eb s) = Lst zs \<Longrightarrow>
   for_each (\<lambda>m. variant_body (Str cc) (Str cb) (Str ci) p m) ms (vb, s) =
     Inr (vb @ map (\<lambda>m. prec_name p @ '' precision '' @ mpi_name m) ms,
          s\<lparr>eb := (eb s)\<lparr>
             configopts := Lst (xs @ map (\<lambda>m. join '' '' (var_confopts (version (eb s)) (mpisuffix (eb s)) p m) @ '' '' @ cc) ms),
             buildopts := Lst (ys @ map (\<lambda>m. join '' '' (var_buildopts (version (eb s)) m) @ '' '' @ cb) ms),
             installopts := Lst (zs @ map (\<lambda>m. join '' '' (var_installopts (version (eb s)) m) @ '' '' @ ci) ms)\<rparr>\<rparr>)"
proof (induction ms arbitrary: s vb xs ys zs)
  case Nil
  then show ?case by simp
next
  case (Cons m ms)
  let ?s1 = "s\<lparr>eb := (eb s)\<lparr>
             configopts := Lst (xs @ [join '' '' (var_confopts (version (eb s)) (mpisuffix (eb s)) p m) @ '' '' @ cc]),
             buildopts := Lst (ys @ [join '' '' (var_buildopts (version (eb s)) m) @ '' '' @ cb]),
             installopts := Lst (zs @ [join '' '' (var_installopts (version (eb s)) m) @ '' '' @ ci])\<rparr>\<rparr>"
  have step: "variant_body (Str cc) (Str cb) (Str ci) p m (vb, s) =
      Inr (vb @ [prec_name p @ '' precision '' @ mpi_name m], ?s1)"
    using Cons.prems by (simp add: variant_body_str)
  have "configopts (eb ?s1) = Lst (xs @ [join '' '' (var_confopts (version (eb s)) (mpisuffix (eb s)) p m) @ '' '' @ cc])"
    and "buildopts (eb ?s1) = Lst (ys @ [join '' '' (var_buildopts (version (eb s)) m) @ '' '' @ cb])"
    and "installopts (eb ?s1) = Lst (zs @ [join '' '' (var_installopts (version (eb s)) m) @ '' '' @ ci])"
    by simp_all
  from Cons.IH [OF this, of "vb @ [prec_name p @ '' precision '' @ mpi_name m]"]
  show ?case
    by (simp add: step bind_err_def)
qed

lemma outer_loop:
  "configopts (eb s) = Lst xs \<Longrightarrow> buildopts (eb s) = Lst ys \<Longrightarrow> installopts (eb s) = Lst zs \<Longrightarrow>
   for_each (\<lambda>p. for_each (\<lambda>m. variant_body (Str cc) (Str cb) (Str ci) p m) ms) ps (vb, s) =
     Inr (vb @ map (\<lambda>(p, m). prec_name p @ '' precision '' @ mpi_name m) (List.product ps ms),
          s\<lparr>eb := (eb s)\<lparr>
             configopts := Lst (xs @ map (\<lambda>(p, m). join '' '' (var_confopts (version (eb s)) (mpisuffix (eb s)) p m) @ '' '' @ cc) (List.product ps ms)),
             buildopts := Lst (ys @ map (\<lambda>(p, m). join '' '' (var_buildopts (version (eb s)) m) @ '' '' @ cb) (List.product ps ms)),
             installopts := Lst (zs @ map (\<lambda>(p, m). join '' '' (var_installopts (version (eb s)) m) @ '' '' @ ci) (List.product ps ms))\<rparr>\<rparr>)"
proof (induction ps arbitrary: s vb xs ys zs)
  case Nil
  then show ?case by simp
next
  case (Cons p ps)
  let ?s1 = "s\<lparr>eb := (eb s)\<lparr>
             configopts := Lst (xs @ map (\<lambda>m. join '' '' (var_confopts (version (eb s)) (mpisuffix (eb s)) p m) @ '' '' @ cc) ms),
             buildopts := Lst (ys @ map (\<lambda>m. join '' '' (var_buildopts (version (eb s)) m) @ '' '' @ cb) ms),
             installopts := Lst (zs @ map (\<lambda>m. join '' '' (var_installopts (version (eb s)) m) @ '' '' @ ci) ms)\<rparr>\<rparr>"
  have step: "for_each (\<lambda>m. variant_body (Str cc) (Str cb) (Str ci) p m) ms (vb, s) =
       Inr (vb @ map (\<lambda>m. prec_name p @ '' precision '' @ mpi_name m) ms, ?s1)"
    using Cons.prems by (rule inner_loop)
  have "configopts (eb ?s1) = Lst (xs @ map (\<lambda>m. join '' '' (var_confopts (version (eb s)) (mpisuffix (eb s)) p m) @ '' '' @ cc) ms)"
    and "buildopts (eb ?s1) = Lst (ys @ map (\<lambda>m. join '' '' (var_buildopts (version (eb s)) m) @ '' '' @ cb) ms)"
    and "installopts (eb ?s1) = Lst (zs @ map (\<lambda>m. join '' '' (var_installopts (version (eb s)) m) @ '' '' @ ci) ms)"
    by simp_all
  from Cons.IH [OF this, of "vb @ map (\<lambda>m. prec_name p @ '' precision '' @ mpi_name m) ms"]
  show ?case
    by (simp add: step bind_err_def comp_def)
qed

lemma precisions_upd:
  "precisions (b\<lparr>configopts := x\<rparr>) = precisions b"
  "precisions (b\<lparr>buildopts := x\<rparr>) = precisions b"
  "precisions (b\<lparr>installopts := x\<rparr>) = precisions b"
  "precisions (b\<lparr>install_cmd := y\<rparr>) = precisions b"
  by (simp_all add: precisions_def)

lemma mpitypes_upd:
  "mpitypes (b\<lparr>configopts := x\<rparr>) = mpitypes b"
  "mpitypes (b\<lparr>buildopts := x\<rparr>) = mpitypes b"
  "mpitypes (b\<lparr>installopts := x\<rparr>) = mpitypes b"
  "mpitypes (b\<lparr>install_cmd := y\<rparr>) = mpitypes b"
  by (simp_all add: mpitypes_def)

lemmas outer_loop_start = outer_loop [where xs = "[]" and ys = "[]" and zs = "[]" and vb = "[]"]

lemma plan_variants_closed_form:
  assumes "configopts (eb s) = Str cc" "buildopts (eb s) = Str cb" "installopts (eb s) = Str ci"
  shows "plan_variants s = Inr (planned s cc cb ci)"
proof (cases "ver_lt (version (eb s)) [5]")
  case True
  then show ?thesis
    using assms
    by (simp add: plan_variants_def Let_def precisions_upd mpitypes_upd outer_loop_start
        bind_err_def planned_def log_add_def)
next
  case False
  then show ?thesis
    using assms
    by (simp add: plan_variants_def Let_def precisions_upd mpitypes_upd outer_loop_start
        bind_err_def planned_def log_add_def)
qed

subsection \<open>The variant matrix\<close>

lemma example_plan_inputs:
  "configopts (eb example_gromacs) = Str ''--X''"
  "buildopts (eb example_gromacs) = Str ''-k''"
  "installopts (eb example_gromacs) = Str ''V=1''"
  "configopts (eb example_gromacs_no_double) = Str ''--X''"
  "buildopts (eb example_gromacs_no_double) = Str ''-k''"
  "installopts (eb example_gromacs_no_double) = Str ''V=1''"
  "configopts (eb example_gromacs_no_mpi) = Str ''--X''"
  "buildopts (eb example_gromacs_no_mpi) = Str ''-k''"
  "installopts (eb example_gromacs_no_mpi) = Str ''V=1''"
  "configopts (eb example_gromacs_single_serial) = Str ''--X''"
  "buildopts (eb example_gromacs_single_serial) = Str ''-k''"
  "installopts (eb example_gromacs_single_serial) = Str ''V=1''"
  by (simp_all add: example_gromacs_def example_easyblock_def example_gromacs_no_double_def
      example_gromacs_no_mpi_def example_gromacs_single_serial_def)

lemma example_plan_settings:
  "version (eb example_gromacs) = [2020, 1]" "mpisuffix (eb example_gromacs) = ''_mpi''"
  "double_precision (eb example_gromacs) = None" "usempi (eb example_gromacs)"
  "version (eb example_gromacs_no_double) = [2020, 1]"
  "mpisuffix (eb example_gromacs_no_double) = ''_mpi''"
  "double_precision (eb example_gromacs_no_double) = Some False"
  "usempi (eb example_gromacs_no_double)"
  "version (eb example_gromacs_no_mpi) = [2020, 1]"
  "mpisuffix (eb example_gromacs_no_mpi) = ''_mpi''"
  "double_precision (eb example_gromacs_no_mpi) = None"
  "\<not> usempi (eb example_gromacs_no_mpi)"
  "version (eb example_gromacs_single_serial) = [2020, 1]"
  "mpisuffix (eb example_gromacs_single_serial) = ''_mpi''"
  "double_precision (eb example_gromacs_single_serial) = Some False"
  "\<not> usempi (eb example_gromacs_single_serial)"
  by (simp_all add: example_gromacs_def example_easyblock_def example_gromacs_no_double_def
      example_gromacs_no_mpi_def example_gromacs_single_serial_def)

text \<open>
  C1: the precisions are single and, unless \<open>double_precision\<close> is \<open>False\<close>, double;
  the mpi-types are nompi and, if the toolchain option \<open>usempi\<close> is set, mpi. When the
  three common options are strings, \<open>run_all_steps\<close> hands to the parent a state
  whose \<open>configopts\<close>, \<open>buildopts\<close> and \<open>installopts\<close> are lists with one entry per
  pair of an enabled precision and an enabled mpi-type, so (number of precisions)
  times (number of mpi-types) entries each; \<open>variants_to_build\<close> is that number; the
  entries, and the labels logged for them, come in the order of the cross product with
  the precision as the outer and the mpi-type as the inner loop.
\<close>

theorem run_all_steps_variant_matrix:
  assumes "configopts (eb s) = Str cc" "buildopts (eb s) = Str cb" "installopts (eb s) = Str ci"
  shows "let precs = (if double_precision (eb s) = Some False then [Single] else [Single, Double]);
             mpis = (if usempi (eb s) then [NoMPI, MPI] else [NoMPI]);
             vs = List.product precs mpis
         in case plan_variants s of
              Inl e \<Rightarrow> False
            | Inr s' \<Rightarrow>
                run_all_steps super_run_all_steps s = super_run_all_steps s' \<and>
                configopts (eb s') =
                  Lst (map (\<lambda>(p, m). join '' '' (var_confopts (version (eb s)) (mpisuffix (eb s)) p m)
                                       @ '' '' @ cc) vs) \<and>
                buildopts (eb s') =
                  Lst (map (\<lambda>(p, m). join '' '' (var_buildopts (version (eb s)) m) @ '' '' @ cb) vs) \<and>
                installopts (eb s') =
                  Lst (map (\<lambda>(p, m). join '' '' (var_installopts (version (eb s)) m) @ '' '' @ ci) vs) \<and>
                py_len (configopts (eb s')) = int (length precs * length mpis) \<and>
                py_len (buildopts (eb s')) = int (length precs * length mpis) \<and>
                py_len (installopts (eb s')) = int (length precs * length mpis) \<and>
                variants_to_build s' = Some (int (length precs * length mpis)) \<and>
                last (log (eb s')) =
                  Info ''Building these versions of GROMACS: %s''
                    [PStr (join '', '' (map (\<lambda>(p, m). prec_name p @ '' precision '' @ mpi_name m) vs))]"
proof -
  have p: "precisions (eb s) =
      (if double_precision (eb s) = Some False then [Single] else [Single, Double])"
    by (cases "double_precision (eb s)") (auto simp add: precisions_def)
  have m: "mpitypes (eb s) = (if usempi (eb s) then [NoMPI, MPI] else [NoMPI])"
    by (simp add: mpitypes_def)
  show ?thesis
    unfolding p [symmetric] m [symmetric]
    by (simp add: plan_variants_closed_form [OF assms] run_all_steps_def bind_err_def
        planned_def Let_def)
qed

theorem run_all_steps_variant_matrix_witness:
  "configopts (eb example_gromacs) = Str ''--X'' \<and>
   buildopts (eb example_gromacs) = Str ''-k'' \<and>
   installopts (eb example_gromacs) = Str ''V=1'' \<and>
   map_sum id (configopts \<circ> eb) (plan_variants example_gromacs) =
     Inr (Lst [''-DGMX_MPI=OFF -DGMX_THREAD_MPI=ON -DGMX_DOUBLE=OFF --X'',
               ''-DGMX_MPI=ON -DGMX_THREAD_MPI=OFF -DGMX_DOUBLE=OFF --X'',
               ''-DGMX_MPI=OFF -DGMX_THREAD_MPI=ON -DGMX_DOUBLE=ON --X'',
               ''-DGMX_MPI=ON -DGMX_THREAD_MPI=OFF -DGMX_DOUBLE=ON --X'']) \<and>
   map_sum id variants_to_build (plan_variants example_gromacs) = Inr (Some 4) \<and>
   map_sum id (last \<circ> log \<circ> eb) (plan_variants example_gromacs) =
     Inr (Info ''Building these versions of GROMACS: %s''
           [PStr ''single precision nompi, single precision mpi, double precision nompi, double precision mpi'']) \<and>
   map_sum id (configopts \<circ> eb) (plan_variants example_gromacs_no_double) =
     Inr (Lst [''-DGMX_MPI=OFF -DGMX_THREAD_MPI=ON -DGMX_DOUBLE=OFF --X'',
               ''-DGMX_MPI=ON -DGMX_THREAD_MPI=OFF -DGMX_DOUBLE=OFF --X'']) \<and>
   map_sum id variants_to_build (plan_variants example_gromacs_no_double) = Inr (Some 2) \<and>
   map_sum id (configopts \<circ> eb) (plan_variants example_gromacs_no_mpi) =
     Inr (Lst [''-DGMX_MPI=OFF -DGMX_THREAD_MPI=ON -DGMX_DOUBLE=OFF --X'',
               ''-DGMX_MPI=OFF -DGMX_THREAD_MPI=ON -DGMX_DOUBLE=ON --X'']) \<and>
   map_sum id variants_to_build (plan_variants example_gromacs_no_mpi) = Inr (Some 2) \<and>
   map_sum id (configopts \<circ> eb) (plan_variants example_gromacs_single_serial) =
     Inr (Lst [''-DGMX_MPI=OFF -DGMX_THREAD_MPI=ON -DGMX_DOUBLE=OFF --X'']) \<and>
   map_sum id (buildopts \<circ> eb) (plan_variants example_gromacs_single_serial) =
     Inr (Lst ['' -k'']) \<and>
   map_sum id (installopts \<circ> eb) (plan_variants example_gromacs_single_serial) =
     Inr (Lst [''install V=1'']) \<and>
   map_sum id variants_to_build (plan_variants example_gromacs_single_serial) = Inr (Some 1)"
proof -
  note a = run_all_steps_variant_matrix [OF example_plan_inputs(1-3), of undefined]
  note b = run_all_steps_variant_matrix [OF example_plan_inputs(4-6), of undefined]
  note c = run_all_steps_variant_matrix [OF example_plan_inputs(7-9), of undefined]
  note d = run_all_steps_variant_matrix [OF example_plan_inputs(10-12), of undefined]
  have 1: "map_sum id (configopts \<circ> eb) (plan_variants example_gromacs) =
     Inr (Lst [''-DGMX_MPI=OFF -DGMX_THREAD_MPI=ON -DGMX_DOUBLE=OFF --X'',
               ''-DGMX_MPI=ON -DGMX_THREAD_MPI=OFF -DGMX_DOUBLE=OFF --X'',
               ''-DGMX_MPI=OFF -DGMX_THREAD_MPI=ON -DGMX_DOUBLE=ON --X'',
               ''-DGMX_MPI=ON -DGMX_THREAD_MPI=OFF -DGMX_DOUBLE=ON --X'']) \<and>
   map_sum id variants_to_build (plan_variants example_gromacs) = Inr (Some 4) \<and>
   map_sum id (last \<circ> log \<circ> eb) (plan_variants example_gromacs) =
     Inr (Info ''Building these versions of GROMACS: %s''
           [PStr ''single precision nompi, single precision mpi, double precision nompi, double precision mpi''])"
    using a
    by (auto simp add: example_plan_settings var_confopts_def Let_def split: sum.splits)
  have 2: "map_sum id (configopts \<circ> eb) (plan_variants example_gromacs_no_double) =
     Inr (Lst [''-DGMX_MPI=OFF -DGMX_THREAD_MPI=ON -DGMX_DOUBLE=OFF --X'',
               ''-DGMX_MPI=ON -DGMX_THREAD_MPI=OFF -DGMX_DOUBLE=OFF --X'']) \<and>
   map_sum id variants_to_build (plan_variants example_gromacs_no_double) = Inr (Some 2)"
    using b
    by (auto simp add: example_plan_settings var_confopts_def Let_def split: sum.splits)
  have 3: "map_sum id (configopts \<circ> eb) (plan_variants example_gromacs_no_mpi) =
     Inr (Lst [''-DGMX_MPI=OFF -DGMX_THREAD_MPI=ON -DGMX_DOUBLE=OFF --X'',
               ''-DGMX_MPI=OFF -DGMX_THREAD_MPI=ON -DGMX_DOUBLE=ON --X'']) \<and>
   map_sum id variants_to_build (plan_variants example_gromacs_no_mpi) = Inr (Some 2)"
    using c
    by (auto simp add: example_plan_settings var_confopts_def Let_def split: sum.splits)
  have 4: "map_sum id (configopts \<circ> eb) (plan_variants example_gromacs_single_serial) =
     Inr (Lst [''-DGMX_MPI=OFF -DGMX_THREAD_MPI=ON -DGMX_DOUBLE=OFF --X'']) \<and>
   map_sum id (buildopts \<circ> eb) (plan_variants example_gromacs_single_serial) =
     Inr (Lst ['' -k'']) \<and>
   map_sum id (installopts \<circ> eb) (plan_variants example_gromacs_single_serial) =
     Inr (Lst [''install V=1'']) \<and>
   map_sum id variants_to_build (plan_variants example_gromacs_single_serial) = Inr (Some 1)"
    using d
    by (auto simp add: example_plan_settings var_confopts_def var_buildopts_def
        var_installopts_def Let_def split: sum.splits)
  from 1 2 3 4 show ?thesis
    by (simp only: example_plan_inputs simp_thms)
qed

subsection \<open>The option strings of a variant\<close>

text \<open>
  C2, as stated, at GROMACS 2020.1 with the common option \<open>--X\<close>: the strings that
  \<open>run_all_steps\<close> plans start with the mpi-type fragment, not with the fragment of
  the first axis (the precision), so they differ from the fragments taken in the order
  of the axes.
\<close>

theorem variant_strings_axis_order_counterexample:
  "map_sum id (configopts \<circ> eb) (plan_variants example_gromacs) =
     Inr (Lst [''-DGMX_MPI=OFF -DGMX_THREAD_MPI=ON -DGMX_DOUBLE=OFF --X'',
               ''-DGMX_MPI=ON -DGMX_THREAD_MPI=OFF -DGMX_DOUBLE=OFF --X'',
               ''-DGMX_MPI=OFF -DGMX_THREAD_MPI=ON -DGMX_DOUBLE=ON --X'',
               ''-DGMX_MPI=ON -DGMX_THREAD_MPI=OFF -DGMX_DOUBLE=ON --X'']) \<and>
   spec_plan_variants
     [[prec_opts [2020, 1] Single, prec_opts [2020, 1] Double],
      [mpi_type_opts [2020, 1] NoMPI, mpi_type_opts [2020, 1] MPI]] ''--X'' =
     [''-DGMX_DOUBLE=OFF -DGMX_MPI=OFF -DGMX_THREAD_MPI=ON --X'',
      ''-DGMX_DOUBLE=OFF -DGMX_MPI=ON -DGMX_THREAD_MPI=OFF --X'',
      ''-DGMX_DOUBLE=ON -DGMX_MPI=OFF -DGMX_THREAD_MPI=ON --X'',
      ''-DGMX_DOUBLE=ON -DGMX_MPI=ON -DGMX_THREAD_MPI=OFF --X''] \<and>
   map_sum id (configopts \<circ> eb) (plan_variants example_gromacs) \<noteq>
     Inr (Lst (spec_plan_variants
       [[prec_opts [2020, 1] Single, prec_opts [2020, 1] Double],
        [mpi_type_opts [2020, 1] NoMPI, mpi_type_opts [2020, 1] MPI]] ''--X''))"
proof -
  have h: "configopts (eb example_gromacs) = Str ''--X''"
    "buildopts (eb example_gromacs) = Str ''-k''"
    "installopts (eb example_gromacs) = Str ''V=1''"
    by (simp_all add: example_gromacs_def example_easyblock_def)
  have v: "version (eb example_gromacs) = [2020, 1]" "mpisuffix (eb example_gromacs) = ''_mpi''"
    "precisions (eb example_gromacs) = [Single, Double]"
    "mpitypes (eb example_gromacs) = [NoMPI, MPI]"
    by (simp_all add: example_gromacs_def example_easyblock_def precisions_def mpitypes_def)
  show ?thesis
    by (simp add: plan_variants_closed_form [OF h] planned_def Let_def v var_confopts_def
        spec_plan_variants_def)
qed

text \<open>
  C2, amended: each planned \<open>configopts\<close> string is the mpi-type fragment, a space, the
  precision fragment, for versions before 4.6 a space and the program-suffix fragment
  (empty for the variants without MPI), then a space and the common \<open>configopts\<close>; each
  planned \<open>buildopts\<close> and \<open>installopts\<close> string is the build or install fragment of
  the mpi-type, a space and the common option. An empty fragment leaves an empty
  segment and nothing fails.
\<close>

theorem variant_strings:
  assumes "configopts (eb s) = Str cc" "buildopts (eb s) = Str cb" "installopts (eb s) = Str ci"
  shows "case plan_variants s of
           Inl e \<Rightarrow> False
         | Inr s' \<Rightarrow>
             configopts (eb s') =
               Lst (map (\<lambda>(p, m).
                      mpi_type_opts (version (eb s)) m @ '' '' @ prec_opts (version (eb s)) p @
                      (if ver_lt (version (eb s)) [4, 6]
                       then '' '' @ (if m = MPI
                                     then ''--program-suffix='' @ mpisuffix (eb s) @
                                          (if p = Double then ''_d'' else '''')
                                     else '''')
                       else '''') @
                      '' '' @ cc)
                    (List.product (precisions (eb s)) (mpitypes (eb s)))) \<and>
             buildopts (eb s') =
               Lst (map (\<lambda>(p, m). build_opts (version (eb s)) m @ '' '' @ cb)
                      (List.product (precisions (eb s)) (mpitypes (eb s)))) \<and>
             installopts (eb s') =
               Lst (map (\<lambda>(p, m). install_opts (version (eb s)) m @ '' '' @ ci)
                      (List.product (precisions (eb s)) (mpitypes (eb s))))"
  by (simp add: plan_variants_closed_form [OF assms] planned_def Let_def var_confopts_def
      var_buildopts_def var_installopts_def)

theorem variant_strings_witness:
  "configopts (eb example_gromacs_45) = Str ''--X'' \<and>
   buildopts (eb example_gromacs_45) = Str ''-k'' \<and>
   installopts (eb example_gromacs_45) = Str ''V=1'' \<and>
   map_sum id (configopts \<circ> eb) (plan_variants example_gromacs_45) =
     Inr (Lst [''--disable-mpi --disable-double  --X'',
               ''--enable-mpi --disable-double --program-suffix=_mpi --X'',
               ''--disable-mpi --enable-double  --X'',
               ''--enable-mpi --enable-double --program-suffix=_mpi_d --X'']) \<and>
   map_sum id (buildopts \<circ> eb) (plan_variants example_gromacs_45) =
     Inr (Lst ['' -k'', ''mdrun -k'', '' -k'', ''mdrun -k'']) \<and>
   map_sum id (installopts \<circ> eb) (plan_variants example_gromacs_45) =
     Inr (Lst [''install V=1'', ''install-mdrun V=1'', ''install V=1'', ''install-mdrun V=1''])"
proof -
  have h: "configopts (eb example_gromacs_45) = Str ''--X''"
    "buildopts (eb example_gromacs_45) = Str ''-k''"
    "installopts (eb example_gromacs_45) = Str ''V=1''"
    by (simp_all add: example_gromacs_45_def example_gromacs_def example_easyblock_def)
  have v: "version (eb example_gromacs_45) = [4, 5, 5]" "mpisuffix (eb example_gromacs_45) = ''_mpi''"
    "precisions (eb example_gromacs_45) = [Single, Double]"
    "mpitypes (eb example_gromacs_45) = [NoMPI, MPI]"
    by (simp_all add: example_gromacs_45_def example_gromacs_def example_easyblock_def precisions_def mpitypes_def)
  show ?thesis
    using variant_strings [OF h]
    by (auto simp add: h v split: sum.splits)
qed

subsection \<open>Nothing is restored after the parent's run_all_steps\<close>

text \<open>
  C3 at GROMACS 4.5.5, with a parent \<open>run_all_steps\<close> that returns at once:
  \<open>install_cmd\<close> was \<open>make install\<close> and is \<open>make\<close> when \<open>run_all_steps\<close> returns;
  the saved value is still in \<open>save_install_cmd\<close>, the assignments that would put it
  back stand after the \<open>return\<close>.
\<close>

theorem run_all_steps_install_cmd_not_restored:
  "install_cmd (eb example_gromacs_45) = ''make install'' \<and>
   map_sum id (install_cmd \<circ> eb \<circ> snd)
     (run_all_steps (\<lambda>s. Inr ((), s)) example_gromacs_45) = Inr ''make'' \<and>
   map_sum id (save_install_cmd \<circ> snd)
     (run_all_steps (\<lambda>s. Inr ((), s)) example_gromacs_45) = Inr (Some ''make install'')"
proof -
  have h: "configopts (eb example_gromacs_45) = Str ''--X''"
    "buildopts (eb example_gromacs_45) = Str ''-k''"
    "installopts (eb example_gromacs_45) = Str ''V=1''"
    by (simp_all add: example_gromacs_45_def example_gromacs_def example_easyblock_def)
  have v: "version (eb example_gromacs_45) = [4, 5, 5]"
    "install_cmd (eb example_gromacs_45) = ''make install''"
    by (simp_all add: example_gromacs_45_def example_gromacs_def example_easyblock_def)
  show ?thesis
    by (simp add: run_all_steps_def plan_variants_closed_form [OF h] bind_err_def planned_def v Let_def)
qed

subsection \<open>Evaluating the examples\<close>

lemma example_single_mpi_fields:
  "double_prec_pattern example_single_mpi = Some ''-DGMX_DOUBLE=ON''"
  "configopts (eb example_single_mpi) = Str ''-DGMX_MPI=ON -DGMX_THREAD_MPI=OFF -DGMX_DOUBLE=OFF --X''"
  "installopts (eb example_single_mpi) = Str ''install V=1''"
  "save_installopts example_single_mpi = Some (Str ''V=1'')"
  "runtest (eb example_single_mpi) = RNone"
  "parallel (eb example_single_mpi) = 4"
  "version (eb example_single_mpi) = [2020, 1]"
  "installdir (eb example_single_mpi) = ''/opt/gromacs''"
  "build_shared_libs (eb example_single_mpi) = False"
  "lib_subdir example_single_mpi = ''''"
  "variants_to_build example_single_mpi = Some 4"
  "iter_idx (eb example_single_mpi) = 1"
  by (simp_all add: example_single_mpi_def planned_def Let_def example_gromacs_def
      example_easyblock_def precisions_def mpitypes_def)

lemma example_double_mpi_fields:
  "double_prec_pattern example_double_mpi = Some ''-DGMX_DOUBLE=ON''"
  "configopts (eb example_double_mpi) = Str ''-DGMX_MPI=ON -DGMX_THREAD_MPI=OFF -DGMX_DOUBLE=ON --X''"
  "installopts (eb example_double_mpi) = Str ''install V=1''"
  "runtest (eb example_double_mpi) = RBool True"
  "mpiexec (eb example_double_mpi) = ''mpirun''"
  "double_precision (eb example_double_mpi) = None"
  "version (eb example_double_mpi) = [2020, 1]"
  by (simp_all add: example_double_mpi_def planned_def Let_def example_gromacs_def
      example_easyblock_def precisions_def mpitypes_def)

lemma example_world_fields:
  "software_root example_world = (\<lambda>name. None)"
  "software_root example_world_cuda = (\<lambda>name. if name = ''CUDA'' then Some ''/opt/cuda'' else None)"
  "which example_world_cuda = (\<lambda>name. None)"
  "which example_world = (\<lambda>name. None)"
  "super_test_step example_world = Inr"
  "super_install_step example_world = Inr"
  "super_build_step example_world = Inr"
  "super_build_step example_world_cuda = Inr"
  "shared_lib_ext example_world = ''so''"
  "path_exists example_world = (\<lambda>path. path = ''/opt/gromacs/lib64'')"
  "glob example_world = (\<lambda>pattern. if pattern = ''/opt/gromacs/lib64/libgromacs*.a''
                         then [''/opt/gromacs/lib64/libgromacs.a''] else [])"
  by (simp_all add: example_world_def example_world_cuda_def)

lemma sublist_eval:
  "sublist [] ys = True"
  "sublist (x # xs) [] = False"
  "sublist (x # xs) (y # ys) = (prefix (x # xs) (y # ys) \<or> sublist (x # xs) ys)"
  by (simp_all add: sublist_Cons_right)

lemma str_int_4: "str_int 4 = ''4''"
  by (simp add: str_int_def str_nat.simps)

lemma locate_libs_example:
  assumes "installdir (eb t) = ''/opt/gromacs''" "\<not> build_shared_libs (eb t)"
    "version (eb t) = [2020, 1]"
  shows "lib_subdir (locate_libs example_world t) = ''lib64''"
proof -
  have pj: "path_join ''/opt/gromacs'' ''lib'' = ''/opt/gromacs/lib''"
    "path_join ''/opt/gromacs'' ''lib64'' = ''/opt/gromacs/lib64''"
    "path_join ''/opt/gromacs/lib64'' ''libgromacs*.a'' = ''/opt/gromacs/lib64/libgromacs*.a''"
    by (simp_all add: path_join_def)
  have dn: "dirname ''/opt/gromacs/lib64/libgromacs.a'' = ''/opt/gromacs/lib64''"
    by (simp add: dirname_def)
  show ?thesis
    using assms
    by (simp add: locate_libs_def Let_def example_world_fields pj dn log_add_def)
qed

subsection \<open>test_step leaves runtest as it was\<close>

text \<open>
  C10: whenever \<open>test_step\<close> returns normally, \<open>runtest\<close> has the value it had before
  the call, whatever the parent's \<open>test_step\<close> did: on the testing branch the saved
  value is written back after the parent's step, and the skipping branch and the
  branch for a false \<open>runtest\<close> do not touch it.
\<close>

theorem test_step_restores_runtest:
  assumes "test_step w s = Inr s'"
  shows "runtest (eb s') = runtest (eb s)"
  using assms
  by (auto simp add: test_step_def run_tests_def bind_err_def Let_def log_add_def update_runtest_def
      call_super_def setvar_def split: sum.splits if_splits rtval.splits)

theorem test_step_restores_runtest_witness:
  "map_sum id (runtest \<circ> eb) (test_step example_world example_single_mpi) = Inr RNone \<and>
   runtest (eb example_single_mpi) = RNone"
proof -
  have "\<exists>s'. test_step example_world example_single_mpi = Inr s'"
    by (simp add: test_step_def run_tests_def is_double_precision_cuda_build_def truthy_def
        example_world_fields example_single_mpi_fields bind_err_def Let_def setvar_def
        update_runtest_def call_super_def)
  then obtain s' where s': "test_step example_world example_single_mpi = Inr s'" ..
  from test_step_restores_runtest [OF s'] show ?thesis
    by (simp add: s' example_single_mpi_fields)
qed

subsection \<open>Skipped variants\<close>






subsection \<open>install_step resets installopts\<close>

lemma plan_variants_Inr_strings:
  assumes "plan_variants s = Inr s'"
  shows "\<exists>cc cb ci. configopts (eb s) = Str cc \<and> buildopts (eb s) = Str cb \<and> installopts (eb s) = Str ci"
proof -
  have first: "variant_body cc cb ci Single NoMPI st = Inl TypeError"
    if "(\<exists>x. cc = Lst x) \<or> (\<exists>x. cb = Lst x) \<or> (\<exists>x. ci = Lst x)" for cc cb ci st
    using that
    by (cases cc; cases cb; cases ci) (auto simp add: variant_body_def str_plus_def bind_err_def Let_def)
  show ?thesis
  proof (rule ccontr)
    assume "\<not> ?thesis"
    then have "(\<exists>x. configopts (eb s) = Lst x) \<or> (\<exists>x. buildopts (eb s) = Lst x) \<or> (\<exists>x. installopts (eb s) = Lst x)"
      by (cases "configopts (eb s)"; cases "buildopts (eb s)"; cases "installopts (eb s)") auto
    from first [OF this] have "plan_variants s = Inl TypeError"
      by (simp add: plan_variants_def Let_def precisions_def mpitypes_def bind_err_def)
    with assms show False by simp
  qed
qed

lemma find_lib_subdir_save_installopts:
  "save_installopts (find_lib_subdir w n ds t) = save_installopts t"
  by (induction ds arbitrary: t) (simp_all add: Let_def log_add_def)

lemma find_lib_dirs_save_installopts:
  "save_installopts (find_lib_dirs w n ds t) = save_installopts t"
  by (induction ds arbitrary: t)
    (simp_all add: find_lib_subdir_save_installopts del: find_lib_subdir.simps)

lemma locate_libs_save_installopts:
  "save_installopts (locate_libs w t) = save_installopts t"
  by (simp add: locate_libs_def Let_def find_lib_dirs_save_installopts del: find_lib_dirs.simps)

text \<open>
  C9: let \<open>run_all_steps\<close> have planned from \<open>s0\<close>, and let \<open>install_step\<close> run in a
  state that still holds the \<open>save_installopts\<close> saved then. If the step is not skipped
  and returns normally, \<open>installopts\<close> is the string that \<open>s0\<close> held: neither the list
  of the variants nor the \<open>-j N\<close> added for the step is left. The reset is part of
  every such call of \<open>install_step\<close>.
\<close>

theorem install_step_resets_installopts:
  assumes "plan_variants s0 = Inr s1" "save_installopts s = save_installopts s1"
    "is_double_precision_cuda_build w s = Inr False" "install_step w s = Inr s'"
  shows "installopts (eb s') = installopts (eb s0) \<and>
         save_installopts s = Some (installopts (eb s')) \<and>
         (case installopts (eb s') of Str ci \<Rightarrow> True | Lst cis \<Rightarrow> False)"
proof -
  from plan_variants_Inr_strings [OF assms(1)] obtain cc cb ci where
    str: "configopts (eb s0) = Str cc" "buildopts (eb s0) = Str cb" "installopts (eb s0) = Str ci"
    by blast
  have saved: "save_installopts s = Some (installopts (eb s0))"
    using assms(1,2) plan_variants_closed_form [OF str] by (auto simp add: planned_def Let_def str)
  define s1 where "s1 = update_installopts (''-j '' @ str_int (parallel (eb s))) s"
  have run: "bind_err (call_super (super_install_step w) s1) (install_finish w) = Inr s'"
    using assms(3,4) by (simp add: install_step_def bind_err_simps s1_def)
  then obtain s2 where s2: "call_super (super_install_step w) s1 = Inr s2"
    by (cases "call_super (super_install_step w) s1") (simp_all add: bind_err_def)
  have sv2: "save_installopts s2 = save_installopts s"
    using s2 by (auto simp add: call_super_def s1_def update_installopts_def split: sum.splits)
  have sv3: "save_installopts (locate_libs w s2) = Some (installopts (eb s0))"
    by (simp add: locate_libs_save_installopts sv2 saved)
  have "installopts (eb s') = installopts (eb s0)"
    using run
    by (auto simp add: s2 bind_err_simps install_finish_def Let_def sv3 split: if_splits)
  then show ?thesis using saved str by simp
qed

theorem install_step_resets_installopts_witness:
  "plan_variants example_gromacs = Inr (planned example_gromacs ''--X'' ''-k'' ''V=1'') \<and>
   save_installopts example_single_mpi =
     save_installopts (planned example_gromacs ''--X'' ''-k'' ''V=1'') \<and>
   is_double_precision_cuda_build example_world example_single_mpi = Inr False \<and>
   map_sum id (installopts \<circ> eb) (install_step example_world example_single_mpi) = Inr (Str ''V=1'') \<and>
   installopts (eb example_gromacs) = Str ''V=1''"
proof -
  have h: "configopts (eb example_gromacs) = Str ''--X''"
    "buildopts (eb example_gromacs) = Str ''-k''"
    "installopts (eb example_gromacs) = Str ''V=1''"
    by (simp_all add: example_gromacs_def example_easyblock_def)
  have p: "plan_variants example_gromacs = Inr (planned example_gromacs ''--X'' ''-k'' ''V=1'')"
    by (rule plan_variants_closed_form [OF h])
  have sv: "save_installopts example_single_mpi =
     save_installopts (planned example_gromacs ''--X'' ''-k'' ''V=1'')"
    by (simp add: example_single_mpi_def Let_def)
  have nd: "is_double_precision_cuda_build example_world example_single_mpi = Inr False"
    by (simp add: is_double_precision_cuda_build_def example_world_fields truthy_def)
  define t where "t = update_installopts (''-j '' @ str_int (parallel (eb example_single_mpi)))
                        example_single_mpi"
  have t: "installdir (eb t) = ''/opt/gromacs''" "\<not> build_shared_libs (eb t)"
    "version (eb t) = [2020, 1]" "save_installopts t = Some (Str ''V=1'')"
    "t\<lparr>eb := eb t\<rparr> = t"
    by (simp_all add: t_def update_installopts_def example_single_mpi_fields)
  have "install_step example_world example_single_mpi =
          Inr ((locate_libs example_world t)\<lparr>eb := (eb (locate_libs example_world t))
                 \<lparr>installopts := Str ''V=1''\<rparr>\<rparr>)"
    unfolding install_step_def install_finish_def Let_def t_def [symmetric]
    by (simp add: nd bind_err_def call_super_def example_world_fields t locate_libs_example
        locate_libs_save_installopts)
  then obtain s' where s': "install_step example_world example_single_mpi = Inr s'" ..
  from install_step_resets_installopts [OF p sv nd s'] show ?thesis
    by (simp add: s' p sv nd h)
qed

subsection \<open>The extensions step runs in the last round only\<close>

lemma for_each_append:
  "for_each body (xs @ ys) s = bind_err (for_each body xs s) (for_each body ys)"
  by (induction xs arbitrary: s) (simp_all add: bind_err_def split: sum.splits)

lemma extensions_step_skip:
  assumes "variants_to_build s = Some n" "iter_idx (eb s) < n - 1"
  shows "extensions_step w fetch s =
           Inr (log_add (Info ''skipping extension step %s'' [PInt (iter_idx (eb s))]) s)"
  using assms by (simp add: extensions_step_def)

lemma extensions_step_last:
  assumes "variants_to_build s = Some n" "\<not> iter_idx (eb s) < n - 1"
  shows "extensions_step w fetch s =
           call_super (super_extensions_step w fetch) (s\<lparr>eb := (eb s)\<lparr>runtest := RNone\<rparr>\<rparr>)"
  using assms by (simp add: extensions_step_def)

lemma for_each_Nil: "for_each body [] = Inr"
  by (rule ext) simp

lemma iter_idx_log_commute:
  "b\<lparr>iter_idx := i, log := l\<rparr> = b\<lparr>log := l, iter_idx := i\<rparr>"
  by simp

lemma skipped_rounds:
  assumes "variants_to_build s = Some (int n)" "k < n"
  shows "for_each (\<lambda>i t. extensions_step w fetch (t\<lparr>eb := (eb t)\<lparr>iter_idx := int i\<rparr>\<rparr>)) [0..<k] s =
           Inr (s\<lparr>eb := (eb s)\<lparr>
                  iter_idx := (if k = 0 then iter_idx (eb s) else int k - 1),
                  log := log (eb s) @
                    map (\<lambda>i. Info ''skipping extension step %s'' [PInt (int i)]) [0..<k]\<rparr>\<rparr>)"
  using assms(2)
proof (induction k)
  case 0
  then show ?case by simp
next
  case (Suc k)
  then have IH: "for_each (\<lambda>i t. extensions_step w fetch (t\<lparr>eb := (eb t)\<lparr>iter_idx := int i\<rparr>\<rparr>)) [0..<k] s =
           Inr (s\<lparr>eb := (eb s)\<lparr>
                  iter_idx := (if k = 0 then iter_idx (eb s) else int k - 1),
                  log := log (eb s) @
                    map (\<lambda>i. Info ''skipping extension step %s'' [PInt (int i)]) [0..<k]\<rparr>\<rparr>)"
    by simp
  let ?t = "s\<lparr>eb := (eb s)\<lparr>
                  iter_idx := int k,
                  log := log (eb s) @
                    map (\<lambda>i. Info ''skipping extension step %s'' [PInt (int i)]) [0..<k]\<rparr>\<rparr>"
  have "variants_to_build ?t = Some (int n)" "iter_idx (eb ?t) < int n - 1"
    using assms(1) Suc.prems by simp_all
  from extensions_step_skip [OF this, of w fetch]
  show ?case
    by (simp add: for_each_append IH bind_err_def log_add_def iter_idx_log_commute)
qed

text \<open>
  C4: with \<open>variants_to_build = n\<close>, \<open>n\<close> at least one, the rounds \<open>0\<close> to \<open>n - 1\<close>
  together call the parent's \<open>extensions_step\<close> once, in the round with index
  \<open>n - 1\<close>, on the state in which the earlier rounds have left nothing but their log
  lines and \<open>runtest\<close> has been set to \<open>None\<close>; in every round with a smaller index
  \<open>extensions_step\<close> returns the state with one log line added, whatever the parent's
  step is.
\<close>

theorem extensions_step_once:
  assumes "variants_to_build s = Some (int n)" "0 < n"
  shows "run_extensions w fetch n s =
           call_super (super_extensions_step w fetch)
             (s\<lparr>eb := (eb s)\<lparr>
                iter_idx := int n - 1,
                log := log (eb s) @
                  map (\<lambda>i. Info ''skipping extension step %s'' [PInt (int i)]) [0..<n - 1],
                runtest := RNone\<rparr>\<rparr>) \<and>
         (\<forall>i. 0 \<le> i \<and> i < int n - 1 \<longrightarrow>
            extensions_step w fetch (s\<lparr>eb := (eb s)\<lparr>iter_idx := i\<rparr>\<rparr>) =
              Inr (log_add (Info ''skipping extension step %s'' [PInt i])
                     (s\<lparr>eb := (eb s)\<lparr>iter_idx := i\<rparr>\<rparr>))) \<and>
         extensions_step w fetch (s\<lparr>eb := (eb s)\<lparr>iter_idx := int n - 1\<rparr>\<rparr>) =
           call_super (super_extensions_step w fetch)
             (s\<lparr>eb := (eb s)\<lparr>iter_idx := int n - 1, runtest := RNone\<rparr>\<rparr>)"
proof -
  obtain k where n: "n = Suc k" using assms(2) by (cases n) auto
  have k: "k < n" using n by simp
  let ?t = "s\<lparr>eb := (eb s)\<lparr>
                  iter_idx := int k,
                  log := log (eb s) @
                    map (\<lambda>i. Info ''skipping extension step %s'' [PInt (int i)]) [0..<k]\<rparr>\<rparr>"
  have "variants_to_build ?t = Some (int n)" "\<not> iter_idx (eb ?t) < int n - 1"
    using assms(1) n by simp_all
  note last = extensions_step_last [OF this, of w fetch]
  have loop: "run_extensions w fetch n s =
           call_super (super_extensions_step w fetch)
             (s\<lparr>eb := (eb s)\<lparr>
                iter_idx := int n - 1,
                log := log (eb s) @
                  map (\<lambda>i. Info ''skipping extension step %s'' [PInt (int i)]) [0..<n - 1],
                runtest := RNone\<rparr>\<rparr>)"
    using last
    by (simp add: run_extensions_def n for_each_append skipped_rounds [OF assms(1) k]
        bind_err_simps for_each_Nil iter_idx_log_commute del: upt_Suc for_each.simps(1)
        add: upt_Suc_append)
  have early: "\<forall>i. 0 \<le> i \<and> i < int n - 1 \<longrightarrow>
            extensions_step w fetch (s\<lparr>eb := (eb s)\<lparr>iter_idx := i\<rparr>\<rparr>) =
              Inr (log_add (Info ''skipping extension step %s'' [PInt i])
                     (s\<lparr>eb := (eb s)\<lparr>iter_idx := i\<rparr>\<rparr>))"
    using assms(1) by (simp add: extensions_step_def)
  have final: "extensions_step w fetch (s\<lparr>eb := (eb s)\<lparr>iter_idx := int n - 1\<rparr>\<rparr>) =
           call_super (super_extensions_step w fetch)
             (s\<lparr>eb := (eb s)\<lparr>iter_idx := int n - 1, runtest := RNone\<rparr>\<rparr>)"
    using assms(1) by (simp add: extensions_step_def)
  from loop early final show ?thesis by blast
qed

theorem extensions_step_once_witness:
  "variants_to_build example_last_round = Some (int 4) \<and> (0::nat) < 4 \<and>
   map_sum id (log \<circ> eb) (run_extensions example_world_ext False 4 example_last_round) =
     Inr [Info ''skipping extension step %s'' [PInt 0],
          Info ''skipping extension step %s'' [PInt 1],
          Info ''skipping extension step %s'' [PInt 2],
          Info ''installing extensions'' []]"
proof -
  have h: "variants_to_build example_last_round = Some (int 4)"
    by (simp add: example_last_round_def example_single_mpi_fields)
  have n: "(0::nat) < 4" by simp
  have u: "[0..<3] = [0, 1, 2]"
    by (simp add: upt_rec)
  show ?thesis
    using extensions_step_once [OF h n, of example_world_ext False]
    by (simp add: call_super_def example_world_ext_def example_last_round_def u
        example_single_mpi_fields)
qed

subsection \<open>Double precision by default with CUDA\<close>

text \<open>
  C5, as stated, at GROMACS 2020.1 with a CUDA root and \<open>double_precision\<close> unset:
  the precision axis is single and double, the planned \<open>configopts\<close> hold the two
  double precision variants, and the fourth of them is a double precision CUDA build.
\<close>

theorem planner_keeps_double_with_cuda_counterexample:
  "truthy (software_root example_world_cuda ''CUDA'') \<and>
   double_precision (eb example_gromacs) = None \<and>
   precisions (eb example_gromacs) = [Single, Double] \<and>
   map_sum id (configopts \<circ> eb) (plan_variants example_gromacs) =
     Inr (Lst [''-DGMX_MPI=OFF -DGMX_THREAD_MPI=ON -DGMX_DOUBLE=OFF --X'',
               ''-DGMX_MPI=ON -DGMX_THREAD_MPI=OFF -DGMX_DOUBLE=OFF --X'',
               ''-DGMX_MPI=OFF -DGMX_THREAD_MPI=ON -DGMX_DOUBLE=ON --X'',
               ''-DGMX_MPI=ON -DGMX_THREAD_MPI=OFF -DGMX_DOUBLE=ON --X'']) \<and>
   is_double_precision_cuda_build example_world_cuda example_double_mpi = Inr True"
proof -
  have h: "configopts (eb example_gromacs) = Str ''--X''"
    "buildopts (eb example_gromacs) = Str ''-k''"
    "installopts (eb example_gromacs) = Str ''V=1''"
    by (simp_all add: example_gromacs_def example_easyblock_def)
  have v: "version (eb example_gromacs) = [2020, 1]" "mpisuffix (eb example_gromacs) = ''_mpi''"
    "precisions (eb example_gromacs) = [Single, Double]"
    "mpitypes (eb example_gromacs) = [NoMPI, MPI]"
    "double_precision (eb example_gromacs) = None"
    by (simp_all add: example_gromacs_def example_easyblock_def precisions_def mpitypes_def)
  have c: "is_double_precision_cuda_build example_world_cuda example_double_mpi = Inr True"
    by (simp add: is_double_precision_cuda_build_def example_world_fields truthy_def
        example_double_mpi_fields sublist_eval)
  show ?thesis
    by (simp add: plan_variants_closed_form [OF h] planned_def Let_def v var_confopts_def c
        example_world_fields truthy_def)
qed

text \<open>
  C5, amended: with \<open>double_precision\<close> unset, \<open>run_all_steps\<close> plans the double
  precision variants after the single precision ones, whether or not there is a CUDA
  root, and does not fail. The exclusion happens in the steps: for GROMACS 4.6 or
  later with a CUDA root, \<open>configure_step\<close> of a variant whose \<open>configopts\<close> contain the
  double precision pattern, \<open>double_precision\<close> not being \<open>True\<close>, returns without
  configuring and without raising; it sets an unset \<open>double_precision\<close> to \<open>False\<close>
  and logs the skip.
\<close>

theorem double_precision_skipped_in_configure_step:
  assumes "configopts (eb s) = Str cc" "buildopts (eb s) = Str cb" "installopts (eb s) = Str ci"
    and "double_precision (eb s) = None"
    and "\<not> ver_lt (version (eb t)) [4, 6]" "truthy (software_root w ''CUDA'')"
    and "double_precision (eb t) \<noteq> Some True"
    and "double_prec_pattern t = Some pat" "py_in pat (configopts (eb t))"
  shows "precisions (eb s) = [Single, Double] \<and>
         (case plan_variants s of
            Inl e \<Rightarrow> False
          | Inr s' \<Rightarrow>
              configopts (eb s') =
                Lst (map (\<lambda>m. join '' '' (var_confopts (version (eb s)) (mpisuffix (eb s)) Single m)
                               @ '' '' @ cc) (mpitypes (eb s)) @
                     map (\<lambda>m. join '' '' (var_confopts (version (eb s)) (mpisuffix (eb s)) Double m)
                               @ '' '' @ cc) (mpitypes (eb s)))) \<and>
         configure_step w t =
           Inr (log_add (Info ''skipping configure step'' [])
                  (if double_precision (eb t) = None
                   then log_add (Info ''Double precision is not available for GPU build. Skipping the double precision build.'' [])
                          (t\<lparr>eb := (eb t)\<lparr>double_precision := Some False\<rparr>\<rparr>)
                   else t))"
proof -
  have p: "precisions (eb s) = [Single, Double]"
    using assms(4) by (simp add: precisions_def)
  have pl: "case plan_variants s of
            Inl e \<Rightarrow> False
          | Inr s' \<Rightarrow>
              configopts (eb s') =
                Lst (map (\<lambda>m. join '' '' (var_confopts (version (eb s)) (mpisuffix (eb s)) Single m)
                               @ '' '' @ cc) (mpitypes (eb s)) @
                     map (\<lambda>m. join '' '' (var_confopts (version (eb s)) (mpisuffix (eb s)) Double m)
                               @ '' '' @ cc) (mpitypes (eb s)))"
    by (simp add: plan_variants_closed_form [OF assms(1-3)] planned_def Let_def p comp_def)
  have cf: "configure_step w t =
           Inr (log_add (Info ''skipping configure step'' [])
                  (if double_precision (eb t) = None
                   then log_add (Info ''Double precision is not available for GPU build. Skipping the double precision build.'' [])
                          (t\<lparr>eb := (eb t)\<lparr>double_precision := Some False\<rparr>\<rparr>)
                   else t))"
    using assms(5-9)
    by (auto simp add: configure_step_def configure_gpu_def truthy_def bind_err_simps Let_def
        split: option.splits)
  from p pl cf show ?thesis by blast
qed

theorem double_precision_skipped_in_configure_step_witness:
  "configopts (eb example_gromacs) = Str ''--X'' \<and>
   buildopts (eb example_gromacs) = Str ''-k'' \<and>
   installopts (eb example_gromacs) = Str ''V=1'' \<and>
   double_precision (eb example_gromacs) = None \<and>
   \<not> ver_lt (version (eb example_double_mpi)) [4, 6] \<and>
   truthy (software_root example_world_cuda ''CUDA'') \<and>
   double_precision (eb example_double_mpi) \<noteq> Some True \<and>
   double_prec_pattern example_double_mpi = Some ''-DGMX_DOUBLE=ON'' \<and>
   py_in ''-DGMX_DOUBLE=ON'' (configopts (eb example_double_mpi)) \<and>
   configure_step example_world_cuda example_double_mpi =
     Inr (log_add (Info ''skipping configure step'' [])
            (log_add (Info ''Double precision is not available for GPU build. Skipping the double precision build.'' [])
               (example_double_mpi\<lparr>eb := (eb example_double_mpi)\<lparr>double_precision := Some False\<rparr>\<rparr>)))"
proof -
  have h: "configopts (eb example_gromacs) = Str ''--X''"
    "buildopts (eb example_gromacs) = Str ''-k''"
    "installopts (eb example_gromacs) = Str ''V=1''"
    "double_precision (eb example_gromacs) = None"
    by (simp_all add: example_gromacs_def example_easyblock_def)
  have t: "\<not> ver_lt (version (eb example_double_mpi)) [4, 6]"
    "truthy (software_root example_world_cuda ''CUDA'')"
    "double_precision (eb example_double_mpi) \<noteq> Some True"
    "double_prec_pattern example_double_mpi = Some ''-DGMX_DOUBLE=ON''"
    "py_in ''-DGMX_DOUBLE=ON'' (configopts (eb example_double_mpi))"
    by (simp_all add: example_double_mpi_fields example_world_fields truthy_def sublist_eval)
  from double_precision_skipped_in_configure_step [OF h t] h t show ?thesis
    by (simp add: example_double_mpi_fields)
qed

subsection \<open>Double precision requested with CUDA\<close>

lemma example_double_mpi_45_fields:
  "configopts (eb example_double_mpi_45) = Str ''--enable-mpi --enable-double --program-suffix=_mpi_d --X''"
  "double_precision (eb example_double_mpi_45) = Some True"
  "version (eb example_double_mpi_45) = [4, 5, 5]"
  "build_shared_libs (eb example_double_mpi_45) = False"
  "openmp (eb example_double_mpi_45) = True"
  "environ (eb example_double_mpi_45) = [''LIBLAPACK'' \<mapsto> ''-llapack'', ''LIBS'' \<mapsto> ''-lm'']"
  by (simp_all add: example_double_mpi_45_def planned_def Let_def example_gromacs_45_def
      example_gromacs_def example_easyblock_def)

text \<open>
  C7, as stated, at GROMACS 4.5.5 with a CUDA root and \<open>double_precision = True\<close>:
  \<open>configure_step\<close> does not raise; it runs the configure script with the options of
  the variant. The CUDA check is made for the versions from 4.6 on only.
\<close>

theorem double_precision_cuda_old_version_counterexample:
  "truthy (software_root example_world_cuda ''CUDA'') \<and>
   double_precision (eb example_double_mpi_45) = Some True \<and>
   configure_step example_world_cuda example_double_mpi_45 \<noteq> Inl DoublePrecisionGPU \<and>
   map_sum id (configopts \<circ> eb) (configure_step example_world_cuda example_double_mpi_45) =
     Inr (Str ''--enable-mpi --enable-double --program-suffix=_mpi_d --X --enable-static  --with-external-blas --with-external-lapack  --without-x  --enable-threads  --without-gsl '')"
proof -
  have w: "software_root example_world_cuda = (\<lambda>name. if name = ''CUDA'' then Some ''/opt/cuda'' else None)"
    "configuremake_configure_step example_world_cuda = Inr"
    by (simp_all add: example_world_cuda_def example_world_def)
  have gpu: "configure_gpu example_world_cuda example_double_mpi_45 = Inr (Continue example_double_mpi_45)"
    by (simp add: configure_gpu_def example_double_mpi_45_fields)
  have pl: "configure_plumed_check example_world_cuda example_double_mpi_45 = Inr None"
    by (simp add: configure_plumed_check_def w truthy_def)
  have at: "map_sum id (configopts \<circ> eb) (configure_autotools example_world_cuda None example_double_mpi_45) =
     Inr (Str ''--enable-mpi --enable-double --program-suffix=_mpi_d --X --enable-static  --with-external-blas --with-external-lapack  --without-x  --enable-threads  --without-gsl '')"
    by (simp add: configure_autotools_def Let_def log_add_def update_configopts_def
        example_double_mpi_45_fields environ_get_def bind_err_simps setvar_def w truthy_def
        call_super_def)
  have cs: "configure_step example_world_cuda example_double_mpi_45 =
      configure_autotools example_world_cuda None example_double_mpi_45"
    by (simp add: configure_step_def gpu pl bind_err_simps example_double_mpi_45_fields)
  show ?thesis
    using at by (auto simp add: cs w truthy_def example_double_mpi_45_fields)
qed

text \<open>
  C7, amended: for GROMACS 4.6 or later, with a CUDA root and \<open>double_precision\<close> set
  to \<open>True\<close>, \<open>configure_step\<close> raises the error at once; no option has been added
  and no command has run.
\<close>

theorem configure_step_double_precision_cuda:
  assumes "\<not> ver_lt (version (eb s)) [4, 6]" "truthy (software_root w ''CUDA'')"
    "double_precision (eb s) = Some True"
  shows "configure_step w s = Inl DoublePrecisionGPU"
  using assms
  by (auto simp add: configure_step_def configure_gpu_def truthy_def bind_err_simps
      split: option.splits)

theorem configure_step_double_precision_cuda_witness:
  "\<not> ver_lt (version (eb example_double_mpi_requested)) [4, 6] \<and>
   truthy (software_root example_world_cuda ''CUDA'') \<and>
   double_precision (eb example_double_mpi_requested) = Some True \<and>
   configure_step example_world_cuda example_double_mpi_requested = Inl DoublePrecisionGPU"
proof -
  have h1: "\<not> ver_lt (version (eb example_double_mpi_requested)) [4, 6]"
    by (simp add: example_double_mpi_requested_def example_double_mpi_fields)
  have h2: "truthy (software_root example_world_cuda ''CUDA'')"
    by (simp add: example_world_fields truthy_def)
  have h3: "double_precision (eb example_double_mpi_requested) = Some True"
    by (simp add: example_double_mpi_requested_def)
  from configure_step_double_precision_cuda [OF h1 h2 h3] h1 h2 h3 show ?thesis by simp
qed

subsection \<open>A missing MPI executable\<close>

text \<open>
  C8, as stated, at GROMACS 2020.1 with a CUDA root: in the round of the double
  precision MPI variant \<open>configopts\<close> contain \<open>-DGMX_MPI=ON\<close>, \<open>mpirun\<close> is not on the
  search path and \<open>runtest\<close> is \<open>True\<close>, yet \<open>configure_step\<close> raises nothing: it
  returns at the CUDA check, before it looks for the executable.
\<close>

theorem mpiexec_missing_skipped_variant_counterexample:
  "py_in ''-DGMX_MPI=ON'' (configopts (eb example_double_mpi)) \<and>
   which example_world_cuda (mpiexec (eb example_double_mpi)) = None \<and>
   rt_truthy (runtest (eb example_double_mpi)) \<and>
   configure_step example_world_cuda example_double_mpi =
     Inr (log_add (Info ''skipping configure step'' [])
            (log_add (Info ''Double precision is not available for GPU build. Skipping the double precision build.'' [])
               (example_double_mpi\<lparr>eb := (eb example_double_mpi)\<lparr>double_precision := Some False\<rparr>\<rparr>)))"
proof -
  have gpu: "configure_gpu example_world_cuda example_double_mpi =
     Inr (Return (log_add (Info ''skipping configure step'' [])
            (log_add (Info ''Double precision is not available for GPU build. Skipping the double precision build.'' [])
               (example_double_mpi\<lparr>eb := (eb example_double_mpi)\<lparr>double_precision := Some False\<rparr>\<rparr>))))"
    by (simp add: configure_gpu_def example_world_fields example_double_mpi_fields sublist_eval)
  show ?thesis
    by (simp add: configure_step_def gpu bind_err_simps example_double_mpi_fields
        example_world_fields sublist_eval)
qed

lemma py_in_cfg_update:
  assumes "py_in p c"
  shows "py_in p (cfg_update c (Str y))"
proof (cases c)
  case (Str x)
  with assms have "sublist p x" by simp
  then obtain ps ss where "x = ps @ p @ ss" by (auto simp add: sublist_def)
  then have "x @ '' '' @ y @ '' '' = ps @ p @ (ss @ '' '' @ y @ '' '')" by simp
  then have "sublist p (x @ '' '' @ y @ '' '')" unfolding sublist_def by blast
  with Str show ?thesis by simp
next
  case (Lst xs)
  with assms show ?thesis by simp
qed

lemma for_each_no_error:
  assumes "\<And>x s. body x s \<noteq> Inl e"
  shows "for_each body xs s \<noteq> Inl e"
proof (induction xs arbitrary: s)
  case Nil
  show ?case by simp
next
  case (Cons x xs)
  show ?case
    using assms [of x s] Cons.IH
    by (cases "body x s") (simp_all add: bind_err_simps)
qed

lemma bind_err_no_error:
  assumes "r \<noteq> Inl e" "\<And>x. f x \<noteq> Inl e"
  shows "bind_err r f \<noteq> Inl e"
  using assms by (cases r) (simp_all add: bind_err_simps)

lemma run_command_no_mpiexec_error: "run_command w cmd s \<noteq> Inl (MpiexecNotFound m)"
  by (simp add: run_command_def split: sum.splits)

lemma configure_plumed_patch_no_mpiexec_error:
  "configure_plumed_patch w plumed_cmd s \<noteq> Inl (MpiexecNotFound m)"
  by (simp add: configure_plumed_patch_def run_command_no_mpiexec_error split: option.splits)

lemma getenv_split_no_mpiexec_error: "getenv_split k s \<noteq> Inl (MpiexecNotFound m)"
  by (simp add: getenv_split_def split: option.splits)

lemma join_libs_no_mpiexec_error: "join_libs d libs \<noteq> Inl (MpiexecNotFound m)"
  by (simp add: join_libs_def Let_def split: option.splits)

lemma configure_blas_lib_no_mpiexec_error:
  "configure_blas_lib w libname s \<noteq> Inl (MpiexecNotFound m)"
proof (cases "toolchain_is_craype w")
  case True
  then show ?thesis
    by (simp add: configure_blas_lib_def Let_def split: option.splits list.splits)
next
  case False
  then show ?thesis
    by (simp add: configure_blas_lib_def Let_def)
      (intro bind_err_no_error getenv_split_no_mpiexec_error join_libs_no_mpiexec_error, simp)
qed

lemma configure_blas_no_mpiexec_error: "configure_blas w s \<noteq> Inl (MpiexecNotFound m)"
proof (cases "truthy (software_root w ''imkl'')")
  case True
  then show ?thesis
    by (simp add: configure_blas_def Let_def)
      (intro bind_err_no_error getenv_split_no_mpiexec_error join_libs_no_mpiexec_error, simp)
next
  case False
  then show ?thesis
    by (simp add: configure_blas_def for_each_no_error configure_blas_lib_no_mpiexec_error
        del: for_each.simps)
qed

lemma configure_ldflags_no_mpiexec_error:
  "configure_ldflags w dl s \<noteq> Inl (MpiexecNotFound m)"
  by (simp add: configure_ldflags_def split: option.splits)

lemma check_pattern_no_mpiexec_error: "check_pattern w out pattern u \<noteq> Inl (MpiexecNotFound m)"
  by (simp add: check_pattern_def)

lemma configure_run_cmake_no_mpiexec_error:
  "configure_run_cmake w s \<noteq> Inl (MpiexecNotFound m)"
proof (cases "super_configure_step w (eb s)")
  case (Inl msg)
  then show ?thesis by (simp add: configure_run_cmake_def)
next
  case (Inr r)
  have "bind_err (for_each (check_pattern w (fst r)) ps ()) (\<lambda>u. Inr t) \<noteq> Inl (MpiexecNotFound m)"
    for ps t
    by (intro bind_err_no_error for_each_no_error check_pattern_no_mpiexec_error) simp
  note checks = this
  show ?thesis
  proof (cases "ver_lt (version (snd r)) [4, 6, 5]")
    case True
    with Inr show ?thesis by (simp add: configure_run_cmake_def Let_def)
  next
    case False
    have "configure_run_cmake w s =
        bind_err (for_each (check_pattern w (fst r))
                    [''Using external FFT library - '' @ [CHR 0x5C] @ ''S*'',
                     ''Looking for dgemm_ - found'',
                     ''Looking for cheev_ - found''] ())
          (\<lambda>u. Inr (s\<lparr>eb := snd r\<rparr>))"
      using Inr False by (simp add: configure_run_cmake_def Let_def del: for_each.simps)
    then show ?thesis by (simp only: checks not_False_eq_True)
  qed
qed

lemma configure_cmake_tail_no_mpiexec_error:
  "configure_cmake_tail w plumed_cmd s \<noteq> Inl (MpiexecNotFound m)"
  unfolding configure_cmake_tail_def
  by (intro bind_err_no_error for_each_no_error configure_plumed_patch_no_mpiexec_error
      configure_blas_no_mpiexec_error configure_ldflags_no_mpiexec_error
      configure_run_cmake_no_mpiexec_error)

lemma configure_gpu_Continue:
  assumes "\<not> ver_lt (version (eb s)) [4, 6]" "configure_gpu w s = Inr (Continue s1)"
  shows "\<exists>x. s1 = update_configopts x s"
  using assms
  by (auto simp add: configure_gpu_def Let_def split: option.splits if_splits)

lemma configure_mpiexec_missing:
  assumes "py_in ''-DGMX_MPI=ON'' (configopts (eb s))" "\<not> truthy (which w (mpiexec (eb s)))"
  shows "rt_truthy (runtest (eb s)) \<Longrightarrow>
           configure_mpiexec w s = Inl (MpiexecNotFound (mpiexec (eb s)))"
    and "\<not> rt_truthy (runtest (eb s)) \<Longrightarrow>
           \<exists>s2. configure_mpiexec w s = Inr s2 \<and> configopts (eb s2) = configopts (eb s)"
  using assms
  by (auto simp add: configure_mpiexec_def Let_def truthy_def bind_err_simps log_add_def
      split: option.splits)

text \<open>
  C8, amended: for GROMACS 4.6 or later, when \<open>configure_step\<close> gets past the CUDA
  check and the PLUMED check, \<open>configopts\<close> contain \<open>-DGMX_MPI=ON\<close> and the MPI
  executable is not found, the error for the missing executable is raised if and only
  if \<open>runtest\<close> is true; otherwise the block adds no option to \<open>configopts\<close> and
  \<open>configure_step\<close> goes on with the rest of the configuration.
\<close>

theorem configure_step_mpiexec_missing:
  assumes "\<not> ver_lt (version (eb s)) [4, 6]"
    and "configure_gpu w s = Inr (Continue s1)"
    and "configure_plumed_check w s1 = Inr plumed_cmd"
    and "py_in ''-DGMX_MPI=ON'' (configopts (eb s))"
    and "\<not> truthy (which w (mpiexec (eb s)))"
  shows "((\<exists>m. configure_step w s = Inl (MpiexecNotFound m)) \<longleftrightarrow> rt_truthy (runtest (eb s))) \<and>
         (rt_truthy (runtest (eb s)) \<longrightarrow>
            configure_step w s = Inl (MpiexecNotFound (mpiexec (eb s)))) \<and>
         (\<not> rt_truthy (runtest (eb s)) \<longrightarrow>
            (case configure_mpiexec w s1 of
               Inl e \<Rightarrow> False
             | Inr s2 \<Rightarrow>
                 configopts (eb s2) = configopts (eb s1) \<and>
                 configure_step w s = configure_cmake_tail w plumed_cmd s2))"
proof -
  from configure_gpu_Continue [OF assms(1,2)] obtain x where s1: "s1 = update_configopts x s" ..
  have same: "version (eb s1) = version (eb s)" "runtest (eb s1) = runtest (eb s)"
    "mpiexec (eb s1) = mpiexec (eb s)"
    by (simp_all add: s1 update_configopts_def)
  have mpi: "py_in ''-DGMX_MPI=ON'' (configopts (eb s1))"
    using assms(4) by (simp add: s1 update_configopts_def py_in_cfg_update)
  have nf: "\<not> truthy (which w (mpiexec (eb s1)))"
    using assms(5) by (simp add: same)
  have step: "configure_step w s =
      bind_err (configure_mpiexec w s1) (configure_cmake_tail w plumed_cmd)"
    using assms(1) by (simp add: configure_step_def assms(2,3) bind_err_simps same configure_cmake_def)
  show ?thesis
  proof (cases "rt_truthy (runtest (eb s))")
    case True
    then have "configure_mpiexec w s1 = Inl (MpiexecNotFound (mpiexec (eb s)))"
      using configure_mpiexec_missing(1) [OF mpi nf] by (simp add: same)
    with True show ?thesis by (simp add: step bind_err_simps)
  next
    case False
    then obtain s2 where s2: "configure_mpiexec w s1 = Inr s2"
      "configopts (eb s2) = configopts (eb s1)"
      using configure_mpiexec_missing(2) [OF mpi nf] by (auto simp add: same)
    have "configure_step w s = configure_cmake_tail w plumed_cmd s2"
      by (simp add: step s2 bind_err_simps)
    with False s2 show ?thesis
      by (simp add: configure_cmake_tail_no_mpiexec_error)
  qed
qed

theorem configure_step_mpiexec_missing_witness:
  "\<not> ver_lt (version (eb example_single_mpi)) [4, 6] \<and>
   configure_gpu example_world example_single_mpi =
     Inr (Continue (update_configopts ''-DGMX_GPU=OFF'' example_single_mpi)) \<and>
   configure_plumed_check example_world (update_configopts ''-DGMX_GPU=OFF'' example_single_mpi) =
     Inr None \<and>
   py_in ''-DGMX_MPI=ON'' (configopts (eb example_single_mpi)) \<and>
   \<not> truthy (which example_world (mpiexec (eb example_single_mpi))) \<and>
   \<not> rt_truthy (runtest (eb example_single_mpi)) \<and>
   configure_step example_world example_single_mpi =
     configure_cmake_tail example_world None
       (log_add (Info ''Using %s as MPI executable when testing, with numprocs flag '%s' and %s tasks''
                   [PStr ''mpirun'', PStr ''-np'', PInt 4])
          (log_add (Info ''No number of test MPI tasks specified -- using default: %s'' [PInt 4])
             (update_configopts ''-DGMX_GPU=OFF'' example_single_mpi))) \<and>
   rt_truthy (runtest (eb example_single_mpi_tested)) \<and>
   configure_step example_world example_single_mpi_tested = Inl (MpiexecNotFound ''mpirun'')"
proof -
  have f: "mpiexec (eb example_single_mpi) = ''mpirun''"
    "mpiexec_numproc_flag (eb example_single_mpi) = ''-np''"
    "mpi_numprocs (eb example_single_mpi) = 0"
    by (simp_all add: example_single_mpi_def planned_def Let_def example_gromacs_def
        example_easyblock_def)
  have h1: "\<not> ver_lt (version (eb example_single_mpi)) [4, 6]"
    by (simp add: example_single_mpi_fields)
  have h2: "configure_gpu example_world example_single_mpi =
     Inr (Continue (update_configopts ''-DGMX_GPU=OFF'' example_single_mpi))"
    by (simp add: configure_gpu_def example_single_mpi_fields example_world_fields)
  have h3: "configure_plumed_check example_world
      (update_configopts ''-DGMX_GPU=OFF'' example_single_mpi) = Inr None"
    by (simp add: configure_plumed_check_def example_world_fields truthy_def)
  have h4: "py_in ''-DGMX_MPI=ON'' (configopts (eb example_single_mpi))"
    by (simp add: example_single_mpi_fields sublist_eval)
  have h5: "\<not> truthy (which example_world (mpiexec (eb example_single_mpi)))"
    by (simp add: example_world_fields truthy_def)
  have h6: "\<not> rt_truthy (runtest (eb example_single_mpi))"
    by (simp add: example_single_mpi_fields)
  have m: "configure_mpiexec example_world (update_configopts ''-DGMX_GPU=OFF'' example_single_mpi) =
     Inr (log_add (Info ''Using %s as MPI executable when testing, with numprocs flag '%s' and %s tasks''
                   [PStr ''mpirun'', PStr ''-np'', PInt 4])
          (log_add (Info ''No number of test MPI tasks specified -- using default: %s'' [PInt 4])
             (update_configopts ''-DGMX_GPU=OFF'' example_single_mpi)))"
    using py_in_cfg_update [OF h4, of "''-DGMX_GPU=OFF''"]
    by (simp add: configure_mpiexec_def update_configopts_def Let_def f example_world_fields
        example_single_mpi_fields bind_err_simps log_add_def)
  have g1: "\<not> ver_lt (version (eb example_single_mpi_tested)) [4, 6]"
    by (simp add: example_single_mpi_tested_def example_single_mpi_fields)
  have g2: "configure_gpu example_world example_single_mpi_tested =
     Inr (Continue (update_configopts ''-DGMX_GPU=OFF'' example_single_mpi_tested))"
    by (simp add: configure_gpu_def example_single_mpi_tested_def example_single_mpi_fields
        example_world_fields)
  have g3: "configure_plumed_check example_world
      (update_configopts ''-DGMX_GPU=OFF'' example_single_mpi_tested) = Inr None"
    by (simp add: configure_plumed_check_def example_world_fields truthy_def)
  have g4: "py_in ''-DGMX_MPI=ON'' (configopts (eb example_single_mpi_tested))"
    by (simp add: example_single_mpi_tested_def example_single_mpi_fields sublist_eval)
  have g5: "\<not> truthy (which example_world (mpiexec (eb example_single_mpi_tested)))"
    by (simp add: example_world_fields truthy_def)
  have g6: "rt_truthy (runtest (eb example_single_mpi_tested))"
    "mpiexec (eb example_single_mpi_tested) = ''mpirun''"
    by (simp_all add: example_single_mpi_tested_def f)
  from configure_step_mpiexec_missing [OF h1 h2 h3 h4 h5]
    configure_step_mpiexec_missing [OF g1 g2 g3 g4 g5]
  show ?thesis
    using h1 h2 h3 h4 h5 h6 g6 by (simp add: m)
qed

end
